theory Spec2Isabelle
  imports Complex_Main
begin

chapter \<open>A gateway provider for football score predictions\<close>

text \<open>
  The provider takes a prediction request for a leased resource, looks up the
  configuration of the resource's offer (the base URL of a prediction API and its key),
  rewrites the \<open>kickoffTime\<close> of every challenge to whole seconds, posts the challenges to
  the API and hands back the predictions. This theory embeds the provider
  (\<open>gateway-provider.ts\<close>: \<open>predictFixtureResults\<close>, \<open>create\<close>, \<open>getDetails\<close>) and its
  request helper (\<open>makePredictionRequest\<close>), together with the parts of the language runtime
  they call: values and member access, \<open>JSON.parse\<close> and \<open>JSON.stringify\<close>, and \<open>Date\<close>.
  The definitions come first; the properties follow from the section on decimal digits
  onwards.
\<close>

section \<open>JavaScript values\<close>

text \<open>
  The gateway provider is TypeScript; at run time its data are JavaScript values. Numbers
  are IEEE doubles in the program. The model keeps the cases the code can tell apart
  (not-a-number, the infinities, negative zero) and lets a finite number be any
  rational, which includes every finite double. A string is the list of its UTF-8 bytes
  (the section on JSON says how a surrogate without a partner is written).
\<close>

datatype jsnum = NaN | PosInf | NegInf | NegZero | Fin rat

datatype jsval =
    JUndefined
  | JNull
  | JBool bool
  | JNum jsnum
  | JStr string
  | JArr "jsval list"
  | JObj "(string \<times> jsval) list"

text \<open>Thrown values. \<open>Raised\<close> carries an error of the host (a failed fetch, a body that
  cannot be read), of a type the program never inspects.\<close>

datatype PipeResponseCode = OK | INTERNAL_SERVER_ERROR

datatype 'e thrown =
    PipeError PipeResponseCode "(string \<times> string) list"
  | Error string
  | TypeError
  | RangeError
  | SyntaxError
  | Raised 'e

fun typeof :: "jsval \<Rightarrow> string" where
  "typeof JUndefined = ''undefined''"
| "typeof JNull = ''object''"
| "typeof (JBool b) = ''boolean''"
| "typeof (JNum n) = ''number''"
| "typeof (JStr s) = ''string''"
| "typeof (JArr xs) = ''object''"
| "typeof (JObj kvs) = ''object''"

text \<open>\<open>ToBoolean\<close>: what \<open>||\<close> and \<open>!\<close> test.\<close>

fun truthy :: "jsval \<Rightarrow> bool" where
  "truthy JUndefined = False"
| "truthy JNull = False"
| "truthy (JBool b) = b"
| "truthy (JNum n) = (n \<noteq> NaN \<and> n \<noteq> NegZero \<and> n \<noteq> Fin 0)"
| "truthy (JStr s) = (s \<noteq> [])"
| "truthy (JArr xs) = True"
| "truthy (JObj kvs) = True"

text \<open>
  Reading a member \<open>v.k\<close> or \<open>v[k]\<close>. The program reads four keys only
  (\<open>params\<close>, \<open>Number of Predictions\<close>, \<open>value\<close>, \<open>kickoffTime\<close>); none of them is an
  index, \<open>length\<close> or a member of a built-in prototype, so on an array, a string, a number
  or a boolean the read gives \<open>undefined\<close>. On \<open>null\<close> and \<open>undefined\<close> it throws.
\<close>

fun getMember :: "jsval \<Rightarrow> string \<Rightarrow> 'e thrown + jsval" where
  "getMember JUndefined k = Inl TypeError"
| "getMember JNull k = Inl TypeError"
| "getMember (JObj kvs) k = Inr (case map_of kvs k of None \<Rightarrow> JUndefined | Some v \<Rightarrow> v)"
| "getMember v k = Inr JUndefined"

fun nullish :: "jsval \<Rightarrow> bool" where
  "nullish JUndefined = True"
| "nullish JNull = True"
| "nullish v = False"

section \<open>Decimal digits\<close>

definition digitChar :: "nat \<Rightarrow> char" where
  "digitChar d = ''0123456789'' ! (d mod 10)"

definition digitVal :: "char \<Rightarrow> nat option" where
  "digitVal c = map_of
     [(CHR ''0'', 0), (CHR ''1'', 1), (CHR ''2'', 2), (CHR ''3'', 3), (CHR ''4'', 4),
      (CHR ''5'', 5), (CHR ''6'', 6), (CHR ''7'', 7), (CHR ''8'', 8), (CHR ''9'', 9)] c"

text \<open>The last \<open>w\<close> decimal digits of \<open>n\<close>, zero-padded on the left.\<close>

fun padNat :: "nat \<Rightarrow> nat \<Rightarrow> string" where
  "padNat 0 n = []"
| "padNat (Suc w) n = padNat w (n div 10) @ [digitChar n]"

definition pad2 :: "nat \<Rightarrow> string" where
  "pad2 n = [digitChar (n div 10), digitChar n]"

definition pad3 :: "nat \<Rightarrow> string" where
  "pad3 n = [digitChar (n div 100), digitChar (n div 10), digitChar n]"

text \<open>Decimal rendering without padding, as a template literal renders an integer.\<close>

fun showNat :: "nat \<Rightarrow> string" where
  "showNat n = (if n < 10 then [digitChar n] else showNat (n div 10) @ [digitChar n])"

fun readDigits :: "nat \<Rightarrow> string \<Rightarrow> nat option" where
  "readDigits acc [] = Some acc"
| "readDigits acc (c # cs) =
     (case digitVal c of None \<Rightarrow> None | Some d \<Rightarrow> readDigits (10 * acc + d) cs)"

section \<open>Dates\<close>

text \<open>
  A Date holds a time value: milliseconds since the epoch, or not-a-number for an
  invalid date (\<open>None\<close> here). The day and year arithmetic is that of the language
  standard: \<open>DayFromYear\<close>, and the year of a day as the largest year that starts on or
  before it, found by counting up from a year that is not too late.
\<close>

definition msPerDay :: int where
  "msPerDay = 86400000"

definition maxTime :: int where
  "maxTime = 8640000000000000"

definition DayFromYear :: "int \<Rightarrow> int" where
  "DayFromYear y = 365 * (y - 1970) + (y - 1969) div 4 - (y - 1901) div 100 + (y - 1601) div 400"

definition InLeapYear :: "int \<Rightarrow> bool" where
  "InLeapYear y = (y mod 4 = 0 \<and> (y mod 100 \<noteq> 0 \<or> y mod 400 = 0))"

definition DaysInYear :: "int \<Rightarrow> int" where
  "DaysInYear y = (if InLeapYear y then 366 else 365)"

lemma div_succ_int:
  fixes a n :: int
  assumes "0 < n"
  shows "(a + 1) div n = a div n + (if (a + 1) mod n = 0 then 1 else 0)"
proof (cases "(a + 1) mod n = 0")
  case True
  then obtain q where q: "a + 1 = n * q" by (auto simp: mod_eq_0_iff_dvd)
  then have "a = n * (q - 1) + (n - 1)" by (simp add: algebra_simps)
  then have "a div n = q - 1" using assms by simp
  with q True assms show ?thesis by simp
next
  case False
  have m: "(a + 1) mod n = (a mod n + 1) mod n" by (simp add: mod_add_left_eq)
  have r: "0 \<le> a mod n" "a mod n < n" using assms by simp_all
  have "a mod n \<noteq> n - 1" using False m by auto
  with r have lt: "a mod n + 1 < n" by simp
  have "a + 1 = n * (a div n) + (a mod n + 1)" by simp
  then have "(a + 1) div n = (n * (a div n) + (a mod n + 1)) div n" by simp
  also have "\<dots> = a div n + (a mod n + 1) div n" using assms by (simp only: div_mult_self4) 
  also have "(a mod n + 1) div n = 0" using r lt by (simp add: div_pos_pos_trivial)
  finally show ?thesis using False by simp
qed

lemma mod_shift: 
  fixes y :: int
  shows "(y - 1968) mod 4 = y mod 4" "(y - 1900) mod 100 = y mod 100" "(y - 1600) mod 400 = y mod 400"
proof -
  have "(y - 1968) = y + 4 * (-492)" "y - 1900 = y + 100 * (-19)" "y - 1600 = y + 400 * (-4)" by simp_all
  then show "(y - 1968) mod 4 = y mod 4" "(y - 1900) mod 100 = y mod 100" "(y - 1600) mod 400 = y mod 400"
    by (simp_all only: mod_mult_self2)
qed

lemma dvd_chain:
  fixes y :: int
  shows "y mod 400 = 0 \<Longrightarrow> y mod 100 = 0" "y mod 100 = 0 \<Longrightarrow> y mod 4 = 0"
proof -
  have a: "(100::int) dvd 400" "(4::int) dvd 100" by simp_all
  show "y mod 400 = 0 \<Longrightarrow> y mod 100 = 0"
    using dvd_trans [OF a(1), of y] by (simp add: mod_eq_0_iff_dvd)
  show "y mod 100 = 0 \<Longrightarrow> y mod 4 = 0"
    using dvd_trans [OF a(2), of y] by (simp add: mod_eq_0_iff_dvd)
qed

lemma div_step_4: "((y::int) + 1 - 1969) div 4 = (y - 1969) div 4 + (if y mod 4 = 0 then 1 else 0)"
proof -
  have "(y - 1969 + 1) div 4 = (y - 1969) div 4 + (if (y - 1969 + 1) mod 4 = 0 then 1 else 0)"
    by (rule div_succ_int) simp
  moreover have "y - 1969 + 1 = y - 1968" "y + 1 - 1969 = y - 1968" by simp_all
  ultimately show ?thesis by (simp only: mod_shift)
qed

lemma div_step_100: "((y::int) + 1 - 1901) div 100 = (y - 1901) div 100 + (if y mod 100 = 0 then 1 else 0)"
proof -
  have "(y - 1901 + 1) div 100 = (y - 1901) div 100 + (if (y - 1901 + 1) mod 100 = 0 then 1 else 0)"
    by (rule div_succ_int) simp
  moreover have "y - 1901 + 1 = y - 1900" "y + 1 - 1901 = y - 1900" by simp_all
  ultimately show ?thesis by (simp only: mod_shift)
qed

lemma div_step_400: "((y::int) + 1 - 1601) div 400 = (y - 1601) div 400 + (if y mod 400 = 0 then 1 else 0)"
proof -
  have "(y - 1601 + 1) div 400 = (y - 1601) div 400 + (if (y - 1601 + 1) mod 400 = 0 then 1 else 0)"
    by (rule div_succ_int) simp
  moreover have "y - 1601 + 1 = y - 1600" "y + 1 - 1601 = y - 1600" by simp_all
  ultimately show ?thesis by (simp only: mod_shift)
qed

lemma leap_algebra:
  fixes y A B C :: int and p4 p100 p400 :: bool
  assumes "p400 \<Longrightarrow> p100" "p100 \<Longrightarrow> p4"
  shows "365 * (y + 1 - 1970) + (A + (if p4 then 1 else 0)) - (B + (if p100 then 1 else 0))
           + (C + (if p400 then 1 else 0))
         = 365 * (y - 1970) + A - B + C + (if p4 \<and> (\<not> p100 \<or> p400) then 366 else 365)"
  using assms by (cases p4; cases p100; cases p400; simp)

lemma DayFromYear_step: "DayFromYear (y + 1) = DayFromYear y + DaysInYear y"
  unfolding DayFromYear_def DaysInYear_def InLeapYear_def div_step_4 div_step_100 div_step_400
  by (rule leap_algebra) (fact dvd_chain)+

function yearUp :: "int \<Rightarrow> int \<Rightarrow> int" where
  "yearUp y d = (if DayFromYear (y + 1) \<le> d then yearUp (y + 1) d else y)"
  by pat_completeness auto
termination
proof (relation "measure (\<lambda>(y, d). nat (d - DayFromYear y))")
  show "wf (measure (\<lambda>(y, d). nat (d - DayFromYear y)))" by simp
next
  fix y d :: int
  assume "DayFromYear (y + 1) \<le> d"
  moreover have "DayFromYear y < DayFromYear (y + 1)"
    by (simp add: DayFromYear_step DaysInYear_def)
  ultimately show "((y + 1, d), (y, d)) \<in> measure (\<lambda>(y, d). nat (d - DayFromYear y))"
    by simp
qed

definition YearFromDay :: "int \<Rightarrow> int" where
  "YearFromDay d = yearUp (1970 + (if 0 \<le> d then d div 366 else d div 365)) d"

text \<open>First day of month \<open>m\<close> (0 to 11, and 12 for the end of the year) within its year.\<close>

definition monthStart :: "bool \<Rightarrow> nat \<Rightarrow> int" where
  "monthStart lp m =
     [0, 31, 59, 90, 120, 151, 181, 212, 243, 273, 304, 334, 365] ! m
       + (if lp \<and> 2 \<le> m then 1 else 0)"

definition MonthFromDayInYear :: "bool \<Rightarrow> int \<Rightarrow> nat" where
  "MonthFromDayInYear lp dy =
     (if dy < monthStart lp 1 then 0 else if dy < monthStart lp 2 then 1
      else if dy < monthStart lp 3 then 2 else if dy < monthStart lp 4 then 3
      else if dy < monthStart lp 5 then 4 else if dy < monthStart lp 6 then 5
      else if dy < monthStart lp 7 then 6 else if dy < monthStart lp 8 then 7
      else if dy < monthStart lp 9 then 8 else if dy < monthStart lp 10 then 9
      else if dy < monthStart lp 11 then 10 else 11)"

definition DaysInMonth :: "int \<Rightarrow> nat \<Rightarrow> int" where
  "DaysInMonth y m = monthStart (InLeapYear y) (Suc m) - monthStart (InLeapYear y) m"

text \<open>\<open>MakeDay\<close> for a month 0 to 11 and a day of the month, and \<open>MakeDate\<close> with
  \<open>MakeTime\<close>.\<close>

definition MakeDay :: "int \<Rightarrow> nat \<Rightarrow> int \<Rightarrow> int" where
  "MakeDay y m dt = DayFromYear y + monthStart (InLeapYear y) m + dt - 1"

definition MakeTime :: "int \<Rightarrow> int \<Rightarrow> int \<Rightarrow> int \<Rightarrow> int" where
  "MakeTime hh mi ss ms = hh * 3600000 + mi * 60000 + ss * 1000 + ms"

definition MakeDate :: "int \<Rightarrow> int \<Rightarrow> int" where
  "MakeDate day tm = day * msPerDay + tm"

record datefields =
  fYear :: int
  fMonth :: nat
  fDate :: int
  fHours :: int
  fMinutes :: int
  fSeconds :: int
  fMillis :: int

definition fieldsOf :: "int \<Rightarrow> datefields" where
  "fieldsOf t =
     (let day = t div msPerDay;
          tw = t mod msPerDay;
          y = YearFromDay day;
          dy = day - DayFromYear y;
          m = MonthFromDayInYear (InLeapYear y) dy
      in \<lparr> fYear = y, fMonth = m, fDate = dy - monthStart (InLeapYear y) m + 1,
            fHours = tw div 3600000, fMinutes = (tw div 60000) mod 60,
            fSeconds = (tw div 1000) mod 60, fMillis = tw mod 1000 \<rparr>)"

text \<open>The year of the ISO format: four digits for the years 0 to 9999, otherwise a sign
  and six digits.\<close>

definition yearString :: "int \<Rightarrow> string" where
  "yearString y =
     (if 0 \<le> y \<and> y \<le> 9999 then padNat 4 (nat y)
      else (if y < 0 then ''-'' else ''+'') @ padNat 6 (nat \<bar>y\<bar>))"

definition isoSeconds :: "datefields \<Rightarrow> string" where
  "isoSeconds f =
     yearString (fYear f) @ ''-'' @ pad2 (Suc (fMonth f)) @ ''-'' @ pad2 (nat (fDate f))
       @ ''T'' @ pad2 (nat (fHours f)) @ '':'' @ pad2 (nat (fMinutes f))
       @ '':'' @ pad2 (nat (fSeconds f))"

text \<open>\<open>Date.prototype.toISOString\<close>: a RangeError on an invalid date.\<close>

definition toISOString :: "int option \<Rightarrow> 'e thrown + string" where
  "toISOString tv =
     (case tv of
        None \<Rightarrow> Inl RangeError
      | Some t \<Rightarrow> Inr (isoSeconds (fieldsOf t) @ ''.'' @ pad3 (nat (fMillis (fieldsOf t))) @ ''Z''))"

section \<open>The host runtime\<close>

text \<open>
  Three things the language leaves to the engine, or that rest on floating point
  arithmetic, are parameters of the model: the decimal text of a finite number, the
  number a numeric token denotes, and what \<open>Date.parse\<close> makes of a string that is not
  in the standard date-time format. Every theorem holds whatever they are.
\<close>

record runtime =
  numberText :: "rat \<Rightarrow> string"
  numberOfText :: "string \<Rightarrow> jsnum"
  dateParseOther :: "string \<Rightarrow> int option"

subsection \<open>Parsing a date\<close>

definition TimeClip :: "int \<Rightarrow> int option" where
  "TimeClip t = (if \<bar>t\<bar> \<le> maxTime then Some t else None)"

definition fracMillis :: "string \<Rightarrow> nat option" where
  "fracMillis zs =
     (if zs = ''Z'' then Some 0
      else case zs of
             [p, f1, f2, f3, z] \<Rightarrow>
               if p = CHR ''.'' \<and> z = CHR ''Z'' then readDigits 0 [f1, f2, f3] else None
           | _ \<Rightarrow> None)"

text \<open>After the year: \<open>-MM-DDTHH:mm:ss\<close>, an optional \<open>.sss\<close>, and \<open>Z\<close>.\<close>

definition isoTail :: "int \<Rightarrow> string \<Rightarrow> int option" where
  "isoTail y r =
     (case r of
        d0 # m1 # m2 # d1 # a1 # a2 # tT # h1 # h2 # c1 # n1 # n2 # c2 # s1 # s2 # zs \<Rightarrow>
          (case readDigits 0 [m1, m2] of None \<Rightarrow> None | Some mo \<Rightarrow>
          (case readDigits 0 [a1, a2] of None \<Rightarrow> None | Some dt \<Rightarrow>
          (case readDigits 0 [h1, h2] of None \<Rightarrow> None | Some hh \<Rightarrow>
          (case readDigits 0 [n1, n2] of None \<Rightarrow> None | Some mi \<Rightarrow>
          (case readDigits 0 [s1, s2] of None \<Rightarrow> None | Some ss \<Rightarrow>
          (case fracMillis zs of None \<Rightarrow> None | Some ms \<Rightarrow>
             if d0 = CHR ''-'' \<and> d1 = CHR ''-'' \<and> tT = CHR ''T'' \<and> c1 = CHR '':'' \<and> c2 = CHR '':''
                \<and> 1 \<le> mo \<and> mo \<le> 12 \<and> 1 \<le> dt \<and> int dt \<le> DaysInMonth y (mo - 1)
                \<and> hh \<le> 23 \<and> mi \<le> 59 \<and> ss \<le> 59
             then TimeClip (MakeDate (MakeDay y (mo - 1) (int dt))
                                     (MakeTime (int hh) (int mi) (int ss) (int ms)))
             else None))))))
      | _ \<Rightarrow> None)"

text \<open>
  The standard date-time format with the UTC designator: a year of four digits, or a
  sign and six digits (never \<open>-000000\<close>). A string that is not of this form, or whose
  fields are out of range, is left to the host.
\<close>

definition isoParse :: "string \<Rightarrow> int option" where
  "isoParse s =
     (case s of
        [] \<Rightarrow> None
      | c # cs \<Rightarrow>
          if c = CHR ''+'' \<or> c = CHR ''-'' then
            (if length cs < 6 then None
             else case readDigits 0 (take 6 cs) of
                    None \<Rightarrow> None
                  | Some y \<Rightarrow>
                      if c = CHR ''-'' \<and> y = 0 then None
                      else isoTail (if c = CHR ''-'' then - int y else int y) (drop 6 cs))
          else
            (if length s < 4 then None
             else case readDigits 0 (take 4 s) of
                    None \<Rightarrow> None
                  | Some y \<Rightarrow> isoTail (int y) (drop 4 s)))"

definition Date_parse :: "runtime \<Rightarrow> string \<Rightarrow> int option" where
  "Date_parse rt s =
     (case isoParse s of
        Some t \<Rightarrow> Some t
      | None \<Rightarrow> (case dateParseOther rt s of None \<Rightarrow> None | Some t \<Rightarrow> TimeClip t))"

subsection \<open>new Date(value)\<close>

definition numberToString :: "runtime \<Rightarrow> jsnum \<Rightarrow> string" where
  "numberToString rt n =
     (case n of NaN \<Rightarrow> ''NaN'' | PosInf \<Rightarrow> ''Infinity'' | NegInf \<Rightarrow> ''-Infinity''
        | NegZero \<Rightarrow> ''0'' | Fin r \<Rightarrow> numberText rt r)"

text \<open>
  \<open>ToString\<close> of a value; \<open>None\<close> is the TypeError of \<open>ToPrimitive\<close>. An array
  joins its elements with commas, \<open>null\<close> and \<open>undefined\<close> elements as the empty
  string, and throws where an element does. An object is converted by its \<open>toString\<close>
  and \<open>valueOf\<close> methods. The inherited \<open>toString\<close> gives \<open>[object Object]\<close> and
  the inherited \<open>valueOf\<close> gives the object itself, which is no primitive. An own
  member named \<open>toString\<close> hides the inherited method; as a value of \<open>jsval\<close> it
  cannot be called, so no method gives a primitive and the conversion throws. An own
  member named \<open>valueOf\<close> changes nothing.
\<close>

fun toStringJS :: "runtime \<Rightarrow> jsval \<Rightarrow> string option"
  and joinJS :: "runtime \<Rightarrow> jsval list \<Rightarrow> string option" where
  "toStringJS rt JUndefined = Some ''undefined''"
| "toStringJS rt JNull = Some ''null''"
| "toStringJS rt (JBool b) = Some (if b then ''true'' else ''false'')"
| "toStringJS rt (JNum n) = Some (numberToString rt n)"
| "toStringJS rt (JStr s) = Some s"
| "toStringJS rt (JArr xs) = joinJS rt xs"
| "toStringJS rt (JObj kvs) =
     (if ''toString'' \<in> fst ` set kvs then None else Some ''[object Object]'')"
| "joinJS rt [] = Some []"
| "joinJS rt (x # xs) =
     (case (if nullish x then Some [] else toStringJS rt x) of
        None \<Rightarrow> None
      | Some s \<Rightarrow>
          if xs = [] then Some s
          else (case joinJS rt xs of None \<Rightarrow> None | Some r \<Rightarrow> Some (s @ '','' @ r)))"

text \<open>\<open>ToIntegerOrInfinity\<close> of a finite number truncates towards zero. \<open>TimeClip\<close> of a
  number tests the range before it truncates.\<close>

definition truncateRat :: "rat \<Rightarrow> int" where
  "truncateRat r = (if 0 \<le> r then \<lfloor>r\<rfloor> else \<lceil>r\<rceil>)"

definition timeOfNumber :: "jsnum \<Rightarrow> int option" where
  "timeOfNumber n =
     (case n of NaN \<Rightarrow> None | PosInf \<Rightarrow> None | NegInf \<Rightarrow> None
        | NegZero \<Rightarrow> Some 0
        | Fin r \<Rightarrow> if \<bar>r\<bar> \<le> of_int maxTime then Some (truncateRat r) else None)"

text \<open>
  \<open>new Date(v)\<close>: a string is parsed, an array or object is first converted to a
  string, which may throw, anything else to a number. The result is the time value of
  the date, \<open>None\<close> for an invalid date.
\<close>

fun newDate :: "runtime \<Rightarrow> jsval \<Rightarrow> 'e thrown + int option" where
  "newDate rt (JStr s) = Inr (Date_parse rt s)"
| "newDate rt (JNum n) = Inr (timeOfNumber n)"
| "newDate rt (JBool b) = Inr (Some (if b then 1 else 0))"
| "newDate rt JNull = Inr (Some 0)"
| "newDate rt JUndefined = Inr None"
| "newDate rt v =
     (case toStringJS rt v of None \<Rightarrow> Inl TypeError | Some s \<Rightarrow> Inr (Date_parse rt s))"

section \<open>JSON\<close>

text \<open>
  \<open>JSON.parse\<close> and \<open>JSON.stringify\<close> on strings given as their UTF-8 bytes. A
  string of the language is a sequence of 16-bit code units and may hold a surrogate
  that has no partner; such a unit is written as the three bytes the same scheme gives
  its number (lead byte \<open>0xED\<close>, second byte \<open>0xA0\<close> or more), which no other
  character uses. A high surrogate directly followed by a low one is always the four
  bytes of the character the pair stands for.
\<close>

subsection \<open>Objects: own properties in order\<close>

text \<open>
  An object is the list of its own properties in enumeration order: the array indices
  ascending, then the other keys in the order they were created. Writing an existing
  key keeps its place.
\<close>

definition isDigit :: "char \<Rightarrow> bool" where
  "isDigit c = (digitVal c \<noteq> None)"

definition arrayIndex :: "string \<Rightarrow> nat option" where
  "arrayIndex k =
     (if k = [] \<or> (hd k = CHR ''0'' \<and> length k \<noteq> 1) \<or> 10 < length k then None
      else case readDigits 0 k of
             None \<Rightarrow> None
           | Some n \<Rightarrow> if int n < 4294967295 then Some n else None)"

fun insertIndexed :: "nat \<Rightarrow> string \<Rightarrow> jsval \<Rightarrow> (string \<times> jsval) list \<Rightarrow> (string \<times> jsval) list" where
  "insertIndexed n k v [] = [(k, v)]"
| "insertIndexed n k v ((k', v') # kvs) =
     (case arrayIndex k' of
        None \<Rightarrow> (k, v) # (k', v') # kvs
      | Some n' \<Rightarrow> if n < n' then (k, v) # (k', v') # kvs else (k', v') # insertIndexed n k v kvs)"

fun replaceValue :: "string \<Rightarrow> jsval \<Rightarrow> (string \<times> jsval) list \<Rightarrow> (string \<times> jsval) list" where
  "replaceValue k v [] = []"
| "replaceValue k v ((k', v') # kvs) =
     (if k' = k then (k, v) # kvs else (k', v') # replaceValue k v kvs)"

definition setMember :: "(string \<times> jsval) list \<Rightarrow> string \<Rightarrow> jsval \<Rightarrow> (string \<times> jsval) list" where
  "setMember kvs k v =
     (if k \<in> fst ` set kvs then replaceValue k v kvs
      else case arrayIndex k of
             None \<Rightarrow> kvs @ [(k, v)]
           | Some n \<Rightarrow> insertIndexed n k v kvs)"

subsection \<open>Tokens\<close>

datatype token =
    TLBrace | TRBrace | TLBracket | TRBracket | TComma | TColon
  | TString string | TNumber string | TTrue | TFalse | TNull

definition hexVal :: "char \<Rightarrow> nat option" where
  "hexVal c =
     (case digitVal c of
        Some d \<Rightarrow> Some d
      | None \<Rightarrow> map_of
          [(CHR ''a'', 10), (CHR ''b'', 11), (CHR ''c'', 12), (CHR ''d'', 13), (CHR ''e'', 14),
           (CHR ''f'', 15), (CHR ''A'', 10), (CHR ''B'', 11), (CHR ''C'', 12), (CHR ''D'', 13),
           (CHR ''E'', 14), (CHR ''F'', 15)] c)"

definition utf8 :: "int \<Rightarrow> string" where
  "utf8 cp =
     (if cp < 128 then [char_of cp]
      else if cp < 2048 then [char_of (192 + cp div 64), char_of (128 + cp mod 64)]
      else if cp < 65536 then
        [char_of (224 + cp div 4096), char_of (128 + (cp div 64) mod 64), char_of (128 + cp mod 64)]
      else
        [char_of (240 + cp div 262144), char_of (128 + (cp div 4096) mod 64),
         char_of (128 + (cp div 64) mod 64), char_of (128 + cp mod 64)])"

definition unescape :: "char \<Rightarrow> char option" where
  "unescape c = map_of
     [(CHR ''\"'', CHR ''\"''), (CHR 0x5C, CHR 0x5C), (CHR ''/'', CHR ''/''),
      (CHR ''b'', CHR 0x08), (CHR ''f'', CHR 0x0C), (CHR ''n'', CHR 0x0A),
      (CHR ''r'', CHR 0x0D), (CHR ''t'', CHR 0x09)] c"

text \<open>Where the scanner stands inside a string literal: in plain text, after a
  backslash, or inside the four hex digits of a \<open>\u\<close> escape.\<close>

datatype strmode =
    SPlain
  | SEscape
  | SUnicode "nat list"

definition hex4 :: "nat list \<Rightarrow> int" where
  "hex4 ds = foldl (\<lambda>a d. 16 * a + int d) 0 ds"

text \<open>The code unit written by the three bytes \<open>0xED b c\<close>.\<close>

definition surrogateUnit :: "char \<Rightarrow> char \<Rightarrow> int" where
  "surrogateUnit b c = 53248 + (of_char b - 128) * 64 + (of_char c - 128)"

text \<open>Every \<open>\u\<close> escape is one code unit, whatever follows it. Two units that come
  to stand side by side as a high and a low surrogate are one character: their six
  bytes become its four.\<close>

fun joinSurrogates :: "string \<Rightarrow> string" where
  "joinSurrogates (a # b # c # d # e # f # cs) =
     (if a = CHR 0xED \<and> 160 \<le> (of_char b :: int) \<and> (of_char b :: int) < 176
         \<and> d = CHR 0xED \<and> 176 \<le> (of_char e :: int)
      then utf8 (65536 + (surrogateUnit b c - 55296) * 1024 + (surrogateUnit e f - 56320))
             @ joinSurrogates cs
      else a # joinSurrogates (b # c # d # e # f # cs))"
| "joinSurrogates cs = cs"

text \<open>Scans the rest of a string literal; gives the decoded text and what follows the
  closing quote. The text read so far is kept reversed.\<close>

fun lexString :: "strmode \<Rightarrow> string \<Rightarrow> string \<Rightarrow> (string \<times> string) option" where
  "lexString m acc [] = None"
| "lexString SPlain acc (c # cs) =
     (if c = CHR ''\"'' then Some (joinSurrogates (rev acc), cs)
      else if c = CHR 0x5C then lexString SEscape acc cs
      else if (of_char c :: nat) < 32 then None
      else lexString SPlain (c # acc) cs)"
| "lexString SEscape acc (c # cs) =
     (if c = CHR ''u'' then lexString (SUnicode []) acc cs
      else case unescape c of
             None \<Rightarrow> None
           | Some d \<Rightarrow> lexString SPlain (d # acc) cs)"
| "lexString (SUnicode ds) acc (c # cs) =
     (case hexVal c of
        None \<Rightarrow> None
      | Some d \<Rightarrow>
          if length ds < 3 then lexString (SUnicode (ds @ [d])) acc cs
          else lexString SPlain (rev (utf8 (hex4 (ds @ [d]))) @ acc) cs)"

lemma lexString_shorter: "lexString m acc cs = Some (s, r) \<Longrightarrow> length r < length cs"
  by (induction m acc cs rule: lexString.induct)
     (auto split: if_splits option.splits)

definition isWhite :: "char \<Rightarrow> bool" where
  "isWhite c = (c = CHR '' '' \<or> c = CHR 0x09 \<or> c = CHR 0x0A \<or> c = CHR 0x0D)"

definition numberChar :: "char \<Rightarrow> bool" where
  "numberChar c = (isDigit c \<or> c = CHR ''-'' \<or> c = CHR ''+'' \<or> c = CHR ''.''
                    \<or> c = CHR ''e'' \<or> c = CHR ''E'')"

text \<open>The grammar of a number: an optional minus, an integer part without a leading
  zero, an optional fraction, an optional exponent.\<close>

definition validNumber :: "string \<Rightarrow> bool" where
  "validNumber s =
     (let s1 = (if s \<noteq> [] \<and> hd s = CHR ''-'' then tl s else s);
          ip = takeWhile isDigit s1;
          r1 = dropWhile isDigit s1;
          hasFrac = (r1 \<noteq> [] \<and> hd r1 = CHR ''.'');
          fd = (if hasFrac then takeWhile isDigit (tl r1) else []);
          r2 = (if hasFrac then dropWhile isDigit (tl r1) else r1);
          hasExp = (r2 \<noteq> [] \<and> (hd r2 = CHR ''e'' \<or> hd r2 = CHR ''E''));
          r3 = (if hasExp then tl r2 else r2);
          r4 = (if hasExp \<and> r3 \<noteq> [] \<and> (hd r3 = CHR ''+'' \<or> hd r3 = CHR ''-'') then tl r3 else r3)
      in ip \<noteq> [] \<and> (hd ip \<noteq> CHR ''0'' \<or> length ip = 1)
         \<and> (hasFrac \<longrightarrow> fd \<noteq> [])
         \<and> (if hasExp then r4 \<noteq> [] \<and> list_all isDigit r4 else r2 = []))"

function tokenize :: "token list \<Rightarrow> string \<Rightarrow> token list option" where
  "tokenize acc [] = Some (rev acc)"
| "tokenize acc (c # cs) =
     (if isWhite c then tokenize acc cs
      else if c = CHR ''{'' then tokenize (TLBrace # acc) cs
      else if c = CHR ''}'' then tokenize (TRBrace # acc) cs
      else if c = CHR ''['' then tokenize (TLBracket # acc) cs
      else if c = CHR '']'' then tokenize (TRBracket # acc) cs
      else if c = CHR '','' then tokenize (TComma # acc) cs
      else if c = CHR '':'' then tokenize (TColon # acc) cs
      else if c = CHR ''\"'' then
        (case lexString SPlain [] cs of
           None \<Rightarrow> None
         | Some (s, r) \<Rightarrow> tokenize (TString s # acc) r)
      else if take 4 (c # cs) = ''true'' then tokenize (TTrue # acc) (drop 3 cs)
      else if take 5 (c # cs) = ''false'' then tokenize (TFalse # acc) (drop 4 cs)
      else if take 4 (c # cs) = ''null'' then tokenize (TNull # acc) (drop 3 cs)
      else if numberChar c then
        (if validNumber (c # takeWhile numberChar cs)
         then tokenize (TNumber (c # takeWhile numberChar cs) # acc) (dropWhile numberChar cs)
         else None)
      else None)"
  by pat_completeness auto
termination
proof (relation "measure (\<lambda>(acc, s). length s)")
  show "wf (measure (\<lambda>(acc, s). length s))" by simp
next
  fix acc c cs x s r
  assume "lexString SPlain [] cs = Some x" and "(s, r) = x"
  then have "length r < length cs" using lexString_shorter [of SPlain "[]" cs s r] by simp
  then show "((TString s # acc, r), (acc, c # cs)) \<in> measure (\<lambda>(acc, s). length s)" by simp
next
  fix acc c cs
  have "length (dropWhile numberChar cs) \<le> length cs" by (rule length_dropWhile_le)
  then show "((TNumber (c # takeWhile numberChar cs) # acc, dropWhile numberChar cs), (acc, c # cs))
               \<in> measure (\<lambda>(acc, s). length s)" by simp
qed simp_all

subsection \<open>Parsing\<close>

text \<open>
  The parser reads the tokens left to right with a stack of the arrays and objects
  that are still open. An open array holds its elements so far (reversed); an open
  object its properties so far and the key whose value is being read.
\<close>

datatype frame =
    FArr "jsval list"
  | FObj "(string \<times> jsval) list" string

datatype pmode =
    PValue
  | PArrStart
  | PObjStart
  | PObjKey
  | PColon string
  | PAfter jsval

definition literalOf :: "runtime \<Rightarrow> token \<Rightarrow> jsval option" where
  "literalOf rt t =
     (case t of
        TString s \<Rightarrow> Some (JStr s)
      | TNumber s \<Rightarrow> Some (JNum (numberOfText rt s))
      | TTrue \<Rightarrow> Some (JBool True)
      | TFalse \<Rightarrow> Some (JBool False)
      | TNull \<Rightarrow> Some JNull
      | _ \<Rightarrow> None)"

fun parseTokens :: "runtime \<Rightarrow> frame list \<Rightarrow> pmode \<Rightarrow> token list \<Rightarrow> jsval option" where
  "parseTokens rt st (PAfter v) [] = (if st = [] then Some v else None)"
| "parseTokens rt st m [] = None"
| "parseTokens rt st (PAfter v) (t # ts) =
     (case st of
        [] \<Rightarrow> None
      | FArr xs # st' \<Rightarrow>
          if t = TComma then parseTokens rt (FArr (v # xs) # st') PValue ts
          else if t = TRBracket then parseTokens rt st' (PAfter (JArr (rev (v # xs)))) ts
          else None
      | FObj kvs k # st' \<Rightarrow>
          if t = TComma then parseTokens rt (FObj (setMember kvs k v) k # st') PObjKey ts
          else if t = TRBrace then parseTokens rt st' (PAfter (JObj (setMember kvs k v))) ts
          else None)"
| "parseTokens rt st (PColon k) (t # ts) =
     (case st of
        FObj kvs k' # st' \<Rightarrow>
          if t = TColon then parseTokens rt (FObj kvs k # st') PValue ts else None
      | _ \<Rightarrow> None)"
| "parseTokens rt st PObjKey (t # ts) =
     (case t of TString k \<Rightarrow> parseTokens rt st (PColon k) ts | _ \<Rightarrow> None)"
| "parseTokens rt st PObjStart (t # ts) =
     (case st of
        FObj kvs k' # st' \<Rightarrow>
          (case t of
             TRBrace \<Rightarrow> parseTokens rt st' (PAfter (JObj kvs)) ts
           | TString k \<Rightarrow> parseTokens rt st (PColon k) ts
           | _ \<Rightarrow> None)
      | _ \<Rightarrow> None)"
| "parseTokens rt st PArrStart (t # ts) =
     (if t = TRBracket then
        (case st of
           FArr xs # st' \<Rightarrow> parseTokens rt st' (PAfter (JArr (rev xs))) ts
         | _ \<Rightarrow> None)
      else if t = TLBracket then parseTokens rt (FArr [] # st) PArrStart ts
      else if t = TLBrace then parseTokens rt (FObj [] [] # st) PObjStart ts
      else case literalOf rt t of
             None \<Rightarrow> None
           | Some v \<Rightarrow> parseTokens rt st (PAfter v) ts)"
| "parseTokens rt st PValue (t # ts) =
     (if t = TLBracket then parseTokens rt (FArr [] # st) PArrStart ts
      else if t = TLBrace then parseTokens rt (FObj [] [] # st) PObjStart ts
      else case literalOf rt t of
             None \<Rightarrow> None
           | Some v \<Rightarrow> parseTokens rt st (PAfter v) ts)"

text \<open>\<open>JSON.parse\<close>: \<open>None\<close> is the SyntaxError.\<close>

definition JSON_parse :: "runtime \<Rightarrow> string \<Rightarrow> jsval option" where
  "JSON_parse rt s =
     (case tokenize [] s of
        None \<Rightarrow> None
      | Some ts \<Rightarrow> parseTokens rt [] PValue ts)"

subsection \<open>Serialising\<close>

definition hexDigit :: "nat \<Rightarrow> char" where
  "hexDigit d = ''0123456789abcdef'' ! (d mod 16)"

definition escapeChar :: "char \<Rightarrow> string" where
  "escapeChar c =
     (if c = CHR ''\"'' then [CHR 0x5C, CHR ''\"'']
      else if c = CHR 0x5C then [CHR 0x5C, CHR 0x5C]
      else if c = CHR 0x08 then [CHR 0x5C, CHR ''b'']
      else if c = CHR 0x0C then [CHR 0x5C, CHR ''f'']
      else if c = CHR 0x0A then [CHR 0x5C, CHR ''n'']
      else if c = CHR 0x0D then [CHR 0x5C, CHR ''r'']
      else if c = CHR 0x09 then [CHR 0x5C, CHR ''t'']
      else if (of_char c :: nat) < 32
        then [CHR 0x5C, CHR ''u'', CHR ''0'', CHR ''0'', hexDigit (of_char c div 16), hexDigit (of_char c)]
      else [c])"

text \<open>A surrogate without a partner is written as a \<open>\u\<close> escape.\<close>

fun escapeString :: "string \<Rightarrow> string" where
  "escapeString (a # b # c # cs) =
     (if a = CHR 0xED \<and> 160 \<le> (of_char b :: int)
      then [CHR 0x5C, CHR ''u'', hexDigit (nat (surrogateUnit b c div 4096 mod 16)),
            hexDigit (nat (surrogateUnit b c div 256 mod 16)),
            hexDigit (nat (surrogateUnit b c div 16 mod 16)),
            hexDigit (nat (surrogateUnit b c mod 16))] @ escapeString cs
      else escapeChar a @ escapeString (b # c # cs))"
| "escapeString (a # cs) = escapeChar a @ escapeString cs"
| "escapeString [] = []"

definition quoteJSON :: "string \<Rightarrow> string" where
  "quoteJSON s = ''\"'' @ escapeString s @ ''\"''"

fun commaJoin :: "string list \<Rightarrow> string" where
  "commaJoin [] = []"
| "commaJoin [x] = x"
| "commaJoin (x # y # ys) = x @ '','' @ commaJoin (y # ys)"

text \<open>
  The text of a value inside an array or object. In an array \<open>undefined\<close> is written
  \<open>null\<close>; a property whose value is \<open>undefined\<close> is left out; a number that is not
  finite is written \<open>null\<close>.
\<close>

fun serializeJSON :: "runtime \<Rightarrow> jsval \<Rightarrow> string"
  and serializeElements :: "runtime \<Rightarrow> jsval list \<Rightarrow> string list"
  and serializeProperties :: "runtime \<Rightarrow> (string \<times> jsval) list \<Rightarrow> string list" where
  "serializeJSON rt JUndefined = ''null''"
| "serializeJSON rt JNull = ''null''"
| "serializeJSON rt (JBool b) = (if b then ''true'' else ''false'')"
| "serializeJSON rt (JNum n) =
     (case n of Fin r \<Rightarrow> numberText rt r | NegZero \<Rightarrow> ''0'' | _ \<Rightarrow> ''null'')"
| "serializeJSON rt (JStr s) = quoteJSON s"
| "serializeJSON rt (JArr xs) = ''['' @ commaJoin (serializeElements rt xs) @ '']''"
| "serializeJSON rt (JObj kvs) = ''{'' @ commaJoin (serializeProperties rt kvs) @ ''}''"
| "serializeElements rt [] = []"
| "serializeElements rt (x # xs) = serializeJSON rt x # serializeElements rt xs"
| "serializeProperties rt [] = []"
| "serializeProperties rt ((k, v) # kvs) =
     (if v = JUndefined then serializeProperties rt kvs
      else (quoteJSON k @ '':'' @ serializeJSON rt v) # serializeProperties rt kvs)"

text \<open>\<open>JSON.stringify\<close>: \<open>undefined\<close> (here \<open>None\<close>) for \<open>undefined\<close>, a string
  otherwise.\<close>

definition JSON_stringify :: "runtime \<Rightarrow> jsval \<Rightarrow> string option" where
  "JSON_stringify rt v = (if v = JUndefined then None else Some (serializeJSON rt v))"

section \<open>The lifecycle hook create\<close>

datatype DeploymentStatus = Running | Deploying | Closed | Unknown | Failed

record Agreement =
  agreementId :: nat
  offerId :: nat

record DetailedOffer =
  offerIdent :: nat
  details :: jsval

record ScorePredictionResourceDetails =
  status :: DeploymentStatus
  Predictions_Allowance_Count :: jsval
  Predictions_Count :: jsval

text \<open>
  \<open>offer.details?.params["Number of Predictions"]\<close>: the optional chain ends the whole
  member expression with \<open>undefined\<close> when \<open>details\<close> is nullish; otherwise \<open>params\<close> is
  read and then indexed, with no second guard.
\<close>

definition numberOfPredictionsEntry :: "jsval \<Rightarrow> 'e thrown + jsval" where
  "numberOfPredictionsEntry d =
     (if nullish d then Inr JUndefined
      else case getMember d ''params'' of
             Inl e \<Rightarrow> Inl e
           | Inr p \<Rightarrow> getMember p ''Number of Predictions'')"

text \<open>\<open>(entry)?.value\<close>\<close>

definition entryValue :: "jsval \<Rightarrow> 'e thrown + jsval" where
  "entryValue entry = (if nullish entry then Inr JUndefined else getMember entry ''value'')"

definition create :: "Agreement \<Rightarrow> DetailedOffer \<Rightarrow> 'e thrown + ScorePredictionResourceDetails" where
  "create agreement offer =
     (if typeof (details offer) = ''object'' then
        (case numberOfPredictionsEntry (details offer) of
           Inl e \<Rightarrow> Inl e
         | Inr entry \<Rightarrow>
            (case entryValue entry of
               Inl e \<Rightarrow> Inl e
             | Inr v \<Rightarrow>
                 let numberOfPredictions = (if truthy v then v else JNum (Fin 0))
                 in Inr \<lparr> status = Running,
                          Predictions_Allowance_Count = numberOfPredictions,
                          Predictions_Count = JNum (Fin 0) \<rparr>))
      else Inl (Error ''Invalid offer details''))"

section \<open>The outbound request executor\<close>

text \<open>
  What the program does to the outside is kept in a record that every operation takes
  and returns: the requests it has issued, in order, and the lines it has logged.
\<close>

datatype loglevel = LevelDebug | LevelError

record request =
  reqUrl :: string
  reqMethod :: string
  reqHeaders :: "(string \<times> string) list"
  reqBody :: "string option"
  reqTimeout :: nat

record world =
  requests :: "request list"
  logged :: "(loglevel \<times> string) list"

text \<open>A response: its status, and its body, or the error that reading the body
  raises.\<close>

record 'e response =
  respStatus :: nat
  respBody :: "'e + string"

text \<open>
  The surroundings of the provider: the configuration resolver it inherits, its protocol
  address, the endpoint (a request is rejected with an error, on a network failure or
  when the timeout aborts it, or answered), and the text \<open>ensureError(err).cause\<close>
  takes in a template string.
\<close>

record configuration =
  apiBaseURL :: string
  apiKey :: string

record 'e services =
  getVirtualProviderConfiguration :: "nat \<Rightarrow> string \<Rightarrow> configuration option"
  protocolAddress :: string
  fetch :: "request \<Rightarrow> 'e + 'e response"
  causeText :: "'e \<Rightarrow> string"

definition writeLog :: "loglevel \<Rightarrow> string \<Rightarrow> world \<Rightarrow> world" where
  "writeLog lv msg w = w \<lparr> logged := logged w @ [(lv, msg)] \<rparr>"

definition responseOk :: "'e response \<Rightarrow> bool" where
  "responseOk r = (200 \<le> respStatus r \<and> respStatus r \<le> 299)"

text \<open>\<open>await response.text().catch(() => placeholder)\<close>\<close>

definition textOr :: "string \<Rightarrow> 'e response \<Rightarrow> string" where
  "textOr placeholder r = (case respBody r of Inl e \<Rightarrow> placeholder | Inr b \<Rightarrow> b)"

text \<open>\<open>await response.json()\<close>\<close>

definition responseJson :: "runtime \<Rightarrow> 'e response \<Rightarrow> 'e thrown + jsval" where
  "responseJson rt r =
     (case respBody r of
        Inl e \<Rightarrow> Inl (Raised e)
      | Inr b \<Rightarrow> (case JSON_parse rt b of None \<Rightarrow> Inl SyntaxError | Some v \<Rightarrow> Inr v))"

definition predictionRequest :: "string \<Rightarrow> string \<Rightarrow> string option \<Rightarrow> request" where
  "predictionRequest url apiKey' challenges =
     \<lparr> reqUrl = url,
       reqMethod = ''POST'',
       reqHeaders = [(''Content-Type'', ''application/json''),
                     (''Authorization'', ''Bearer '' @ apiKey')],
       reqBody = challenges,
       reqTimeout = 120000 \<rparr>"

definition makePredictionRequest ::
  "runtime \<Rightarrow> 'e services \<Rightarrow> string \<Rightarrow> string \<Rightarrow> string option \<Rightarrow> world
     \<Rightarrow> ('e thrown + jsval) \<times> world" where
  "makePredictionRequest rt sv url apiKey' challenges w =
     (let req = predictionRequest url apiKey' challenges;
          w1 = w \<lparr> requests := requests w @ [req] \<rparr>
      in case fetch sv req of
           Inl err \<Rightarrow>
             (Inl (Raised err), writeLog LevelDebug (''Fetch error cause: '' @ causeText sv err) w1)
         | Inr response \<Rightarrow>
             if \<not> responseOk response then
               (Inl (PipeError INTERNAL_SERVER_ERROR
                       [(''predictions'', ''''), (''message'', ''Prediction is failed'')]),
                writeLog LevelError
                  (''API call to '' @ url @ '' failed with status ''
                     @ showNat (respStatus response) @ '': ''
                     @ textOr ''[body not available]'' response) w1)
             else
               (responseJson rt response,
                writeLog LevelDebug
                  (''Response got from '' @ url @ '': '' @ textOr ''[not available]'' response) w1))"

section \<open>The gateway provider\<close>

record Resource =
  deploymentStatus :: DeploymentStatus
  resourceDetails :: ScorePredictionResourceDetails

record predictionResult =
  predictions :: "string option"
  responseCode :: PipeResponseCode

text \<open>\<open>s.split(".")[0]\<close>: the text before the first dot, all of it when there is none.\<close>

definition beforeDot :: "string \<Rightarrow> string" where
  "beforeDot s = takeWhile (\<lambda>c. c \<noteq> CHR ''.'') s"

text \<open>The own enumerable properties that \<open>{...v}\<close> copies: of an object its
  properties, of an array its elements under their indices, of a string its characters
  under their indices (here byte by byte; the program never reads the copy of a string,
  whose \<open>kickoffTime\<close> is \<open>undefined\<close>).\<close>

fun spread :: "jsval \<Rightarrow> (string \<times> jsval) list" where
  "spread (JObj kvs) = kvs"
| "spread (JArr xs) = zip (map showNat [0 ..< length xs]) xs"
| "spread (JStr s) = zip (map showNat [0 ..< length s]) (map (\<lambda>c. JStr [c]) s)"
| "spread v = []"

text \<open>
  The function mapped over the challenges:
  \<open>{...challenge, kickoffTime: new Date(challenge.kickoffTime).toISOString().split(".")[0] + "Z"}\<close>
\<close>

definition normalizeChallenge :: "runtime \<Rightarrow> jsval \<Rightarrow> 'e thrown + jsval" where
  "normalizeChallenge rt challenge =
     (case getMember challenge ''kickoffTime'' of
        Inl e \<Rightarrow> Inl e
      | Inr k \<Rightarrow>
          (case newDate rt k of
             Inl e \<Rightarrow> Inl e
           | Inr date \<Rightarrow>
               (case toISOString date of
                  Inl e \<Rightarrow> Inl e
                | Inr isoText \<Rightarrow>
                    Inr (JObj (setMember (spread challenge) ''kickoffTime''
                                 (JStr (beforeDot isoText @ ''Z'')))))))"

text \<open>\<open>Array.prototype.map\<close> with a callback that can throw: the first throw ends it.\<close>

fun mapThrowing :: "('a \<Rightarrow> 'e thrown + 'b) \<Rightarrow> 'a list \<Rightarrow> 'e thrown + 'b list" where
  "mapThrowing f [] = Inr []"
| "mapThrowing f (x # xs) =
     (case f x of
        Inl e \<Rightarrow> Inl e
      | Inr y \<Rightarrow> (case mapThrowing f xs of Inl e \<Rightarrow> Inl e | Inr ys \<Rightarrow> Inr (y # ys)))"

text \<open>\<open>objChallenges.map(...)\<close>: only an array has \<open>map\<close>; on any other parsed value
  the call throws a TypeError.\<close>

definition normalizeChallenges :: "runtime \<Rightarrow> jsval \<Rightarrow> 'e thrown + jsval" where
  "normalizeChallenges rt objChallenges =
     (case objChallenges of
        JArr xs \<Rightarrow> (case mapThrowing (normalizeChallenge rt) xs of
                      Inl e \<Rightarrow> Inl e
                    | Inr ys \<Rightarrow> Inr (JArr ys))
      | _ \<Rightarrow> Inl TypeError)"

text \<open>Lines 79 to 89: parse the challenges, rewrite each kickoffTime, serialise.\<close>

definition challengesToPredict :: "runtime \<Rightarrow> string \<Rightarrow> 'e thrown + string option" where
  "challengesToPredict rt challenges =
     (case JSON_parse rt challenges of
        None \<Rightarrow> Inl SyntaxError
      | Some objChallenges \<Rightarrow>
          (case normalizeChallenges rt objChallenges of
             Inl e \<Rightarrow> Inl e
           | Inr normalized \<Rightarrow> Inr (JSON_stringify rt normalized)))"

definition predictFixtureResults ::
  "runtime \<Rightarrow> 'e services \<Rightarrow> Agreement \<Rightarrow> Resource \<Rightarrow> string \<Rightarrow> world
     \<Rightarrow> ('e thrown + predictionResult) \<times> world" where
  "predictFixtureResults rt sv agreement resource challenges w =
     (case getVirtualProviderConfiguration sv (offerId agreement) (protocolAddress sv) of
        None \<Rightarrow>
          (Inl (PipeError INTERNAL_SERVER_ERROR
                  [(''message'', ''Configuration of the Offer is not found'')]), w)
      | Some configuration \<Rightarrow>
          (case challengesToPredict rt challenges of
             Inl e \<Rightarrow> (Inl e, w)
           | Inr body \<Rightarrow>
               (case makePredictionRequest rt sv (apiBaseURL configuration) (apiKey configuration)
                       body w of
                  (Inl e, w') \<Rightarrow> (Inl e, w')
                | (Inr apiResponse, w') \<Rightarrow>
                    (Inr \<lparr> predictions = JSON_stringify rt apiResponse, responseCode = OK \<rparr>, w'))))"

text \<open>\<open>{...resource.details, status: resource.deploymentStatus}\<close>\<close>

definition getDetails ::
  "Agreement \<Rightarrow> DetailedOffer \<Rightarrow> Resource \<Rightarrow> ScorePredictionResourceDetails" where
  "getDetails agreement offer resource =
     (resourceDetails resource) \<lparr> status := deploymentStatus resource \<rparr>"

section \<open>Notions the properties are stated with\<close>

text \<open>The text the program writes as \<open>kickoffTime\<close> for a date with time value \<open>t\<close>:
  the ISO text up to the seconds, and \<open>Z\<close>.\<close>

definition kickoffText :: "int \<Rightarrow> string" where
  "kickoffText t = isoSeconds (fieldsOf t) @ ''Z''"

text \<open>A challenge whose \<open>kickoffTime\<close> can be read and is a timestamp that
  \<open>new Date\<close> accepts.\<close>

definition validChallenge :: "runtime \<Rightarrow> jsval \<Rightarrow> bool" where
  "validChallenge rt challenge =
     (case (getMember challenge ''kickoffTime'' :: unit thrown + jsval) of
        Inl e \<Rightarrow> False
      | Inr k \<Rightarrow>
          (case (newDate rt k :: unit thrown + int option) of
             Inl e \<Rightarrow> False
           | Inr date \<Rightarrow> date \<noteq> None))"

text \<open>A challenge whose \<open>kickoffTime\<close> is an array or object that has no conversion
  to a primitive value.\<close>

definition unconvertible :: "runtime \<Rightarrow> jsval \<Rightarrow> bool" where
  "unconvertible rt challenge =
     (case (getMember challenge ''kickoffTime'' :: unit thrown + jsval) of
        Inl e \<Rightarrow> False
      | Inr k \<Rightarrow> toStringJS rt k = None)"

text \<open>The payload after one pass of lines 80 to 89 on a parsed value, and after a second
  pass over the result of the first.\<close>

definition normalizedText :: "runtime \<Rightarrow> jsval \<Rightarrow> 'e thrown + string option" where
  "normalizedText rt v =
     (case normalizeChallenges rt v of
        Inl e \<Rightarrow> Inl e
      | Inr n \<Rightarrow> Inr (JSON_stringify rt n))"

definition normalizedTwiceText :: "runtime \<Rightarrow> jsval \<Rightarrow> 'e thrown + string option" where
  "normalizedTwiceText rt v =
     (case normalizeChallenges rt v of
        Inl e \<Rightarrow> Inl e
      | Inr n \<Rightarrow> normalizedText rt n)"




text \<open>A thrown value that carries a response code.\<close>

fun isPipeError :: "'e thrown \<Rightarrow> bool" where
  "isPipeError (PipeError c p) = True"
| "isPipeError e = False"

text \<open>A runtime for the examples: it writes and reads whole numbers, and knows no date
  format but the standard one.\<close>

definition exampleRuntime :: runtime where
  "exampleRuntime =
     \<lparr> numberText = (\<lambda>r. (if r < 0 then ''-'' else []) @ showNat (nat \<lfloor>\<bar>r\<bar>\<rfloor>)),
       numberOfText = (\<lambda>s. case readDigits 0 s of None \<Rightarrow> NaN | Some n \<Rightarrow> Fin (of_nat n)),
       dateParseOther = (\<lambda>s. None) \<rparr>"

text \<open>Surroundings for the examples: a resolver that answers \<open>cfg\<close> for every offer, and
  an endpoint \<open>f\<close>. The echoing endpoint answers 200 with the body it was sent.\<close>

definition exampleServices ::
  "configuration option \<Rightarrow> (request \<Rightarrow> unit + unit response) \<Rightarrow> unit services" where
  "exampleServices cfg f =
     \<lparr> getVirtualProviderConfiguration = (\<lambda>offer address. cfg),
       protocolAddress = ''0x5a1f'',
       fetch = f,
       causeText = (\<lambda>e. ''Error: connect ECONNREFUSED'') \<rparr>"

definition exampleConfiguration :: configuration where
  "exampleConfiguration =
     \<lparr> apiBaseURL = ''https://api.score-prediction.net'',
       apiKey = ''4vXK8xf3wTYJzVk18ADtoRkhblC79gvgZ0XhEFPc'' \<rparr>"

definition echoEndpoint :: "request \<Rightarrow> unit + unit response" where
  "echoEndpoint req =
     Inr \<lparr> respStatus = 200,
           respBody = (case reqBody req of None \<Rightarrow> Inr [] | Some b \<Rightarrow> Inr b) \<rparr>"

definition exampleResource :: Resource where
  "exampleResource =
     \<lparr> deploymentStatus = Running,
       resourceDetails = \<lparr> status = Running, Predictions_Allowance_Count = JNum (Fin 50),
                           Predictions_Count = JNum (Fin 0) \<rparr> \<rparr>"

definition emptyWorld :: world where
  "emptyWorld = \<lparr> requests = [], logged = [] \<rparr>"

section \<open>Facts about decimal digits\<close>

lemma digitChar_mem: "digitChar d \<in> set ''0123456789''"
  unfolding digitChar_def by (rule nth_mem) simp

lemma below_ten_cases:
  "(i::nat) < 10 \<Longrightarrow> i = 0 \<or> i = 1 \<or> i = 2 \<or> i = 3 \<or> i = 4 \<or> i = 5 \<or> i = 6 \<or> i = 7 \<or> i = 8 \<or> i = 9"
  by arith

lemma digitVal_nth: "i < 10 \<Longrightarrow> digitVal (''0123456789'' ! i) = Some i"
  using below_ten_cases [of i] by (auto simp: digitVal_def)

lemma digitVal_digitChar: "digitVal (digitChar d) = Some (d mod 10)"
  unfolding digitChar_def by (rule digitVal_nth) simp

lemma digitChar_not_punct:
  "digitChar d \<noteq> CHR ''.''" "digitChar d \<noteq> CHR ''+''" "digitChar d \<noteq> CHR ''-''"
  using digitChar_mem [of d] by auto

lemma readDigits_append:
  "readDigits acc (xs @ ys) =
     (case readDigits acc xs of None \<Rightarrow> None | Some a \<Rightarrow> readDigits a ys)"
  by (induction xs arbitrary: acc) (auto split: option.splits)

lemma length_padNat: "length (padNat w n) = w"
  by (induction w arbitrary: n) simp_all

lemma readDigits_padNat: "readDigits acc (padNat w n) = Some (acc * 10 ^ w + n mod 10 ^ w)"
proof (induction w arbitrary: acc n)
  case 0
  show ?case by simp
next
  case (Suc w)
  have m: "n mod (10 * 10 ^ w) = 10 * (n div 10 mod 10 ^ w) + n mod 10"
    by (rule mod_mult2_eq)
  show ?case
    by (simp add: readDigits_append Suc digitVal_digitChar m algebra_simps)
qed

lemma readDigits_pad2: "n < 100 \<Longrightarrow> readDigits 0 (pad2 n) = Some n"
proof -
  assume n: "n < 100"
  have "n mod (10 * 10) = 10 * (n div 10 mod 10) + n mod 10" by (rule mod_mult2_eq)
  with n have "10 * (n div 10 mod 10) + n mod 10 = n" by simp
  then show ?thesis by (simp add: pad2_def digitVal_digitChar)
qed

section \<open>Facts about the calendar\<close>

lemma DaysInYear_cases: "DaysInYear y = 365 \<or> DaysInYear y = 366"
  by (simp add: DaysInYear_def)

lemma DayFromYear_1970: "DayFromYear 1970 = 0"
  by (simp add: DayFromYear_def)

lemma DayFromYear_strict: "DayFromYear y < DayFromYear (y + 1)"
  using DaysInYear_cases [of y] by (auto simp: DayFromYear_step)

lemma DayFromYear_mono: "a \<le> b \<Longrightarrow> DayFromYear a \<le> DayFromYear b"
proof (induction b rule: int_ge_induct)
  case base
  show ?case by simp
next
  case (step i)
  with DayFromYear_strict [of i] show ?case by simp
qed

lemma DayFromYear_upper: "0 \<le> k \<Longrightarrow> DayFromYear (1970 + k) \<le> 366 * k"
proof (induction k rule: int_ge_induct)
  case base
  show ?case by (simp add: DayFromYear_1970)
next
  case (step i)
  have "DayFromYear (1970 + i + 1) = DayFromYear (1970 + i) + DaysInYear (1970 + i)"
    by (rule DayFromYear_step)
  with step DaysInYear_cases [of "1970 + i"] show ?case by (auto simp: add.assoc)
qed

lemma DayFromYear_lower: "k \<le> 0 \<Longrightarrow> DayFromYear (1970 + k) \<le> 365 * k"
proof (induction k rule: int_le_induct)
  case base
  show ?case by (simp add: DayFromYear_1970)
next
  case (step i)
  have "DayFromYear (1970 + (i - 1) + 1) = DayFromYear (1970 + (i - 1)) + DaysInYear (1970 + (i - 1))"
    by (rule DayFromYear_step)
  moreover have "1970 + (i - 1) + 1 = 1970 + i" by simp
  ultimately have "DayFromYear (1970 + i) = DayFromYear (1970 + (i - 1)) + DaysInYear (1970 + (i - 1))"
    by simp
  with step DaysInYear_cases [of "1970 + (i - 1)"] show ?case by auto
qed

lemma yearUp_bracket:
  "DayFromYear y \<le> d \<Longrightarrow> DayFromYear (yearUp y d) \<le> d \<and> d < DayFromYear (yearUp y d + 1)"
proof (induction y d rule: yearUp.induct)
  case (1 y d)
  show ?case
  proof (cases "DayFromYear (y + 1) \<le> d")
    case True
    with 1 show ?thesis by (subst (1 2) yearUp.simps) simp
  next
    case False
    with 1 show ?thesis by (subst (1 2) yearUp.simps) simp
  qed
qed

lemma start_year_ok: "DayFromYear (1970 + (if 0 \<le> d then d div 366 else d div 365)) \<le> d"
proof (cases "0 \<le> d")
  case True
  then have "0 \<le> d div 366" by simp
  then have "DayFromYear (1970 + d div 366) \<le> 366 * (d div 366)" by (rule DayFromYear_upper)
  also have "366 * (d div 366) \<le> d"
    using mult_div_mod_eq [of 366 d] pos_mod_sign [of 366 d] by linarith
  finally show ?thesis using True by simp
next
  case False
  then have "d div 365 \<le> 0" by (simp add: div_nonpos_pos_le0)
  then have "DayFromYear (1970 + d div 365) \<le> 365 * (d div 365)" by (rule DayFromYear_lower)
  also have "365 * (d div 365) \<le> d"
    using mult_div_mod_eq [of 365 d] pos_mod_sign [of 365 d] by linarith
  finally show ?thesis using False by simp
qed

lemma YearFromDay_bracket:
  "DayFromYear (YearFromDay d) \<le> d \<and> d < DayFromYear (YearFromDay d) + DaysInYear (YearFromDay d)"
  using yearUp_bracket [OF start_year_ok, of d] by (simp add: YearFromDay_def DayFromYear_step)

lemma monthStart_values:
  "monthStart lp 0 = 0"
  "monthStart lp 1 = 31"
  "monthStart lp 2 = (if lp then 60 else 59)"
  "monthStart lp 3 = (if lp then 91 else 90)"
  "monthStart lp 4 = (if lp then 121 else 120)"
  "monthStart lp 5 = (if lp then 152 else 151)"
  "monthStart lp 6 = (if lp then 182 else 181)"
  "monthStart lp 7 = (if lp then 213 else 212)"
  "monthStart lp 8 = (if lp then 244 else 243)"
  "monthStart lp 9 = (if lp then 274 else 273)"
  "monthStart lp 10 = (if lp then 305 else 304)"
  "monthStart lp 11 = (if lp then 335 else 334)"
  "monthStart lp 12 = (if lp then 366 else 365)"
  by (simp_all add: monthStart_def)

lemma monthStart_Suc_values:
  "monthStart lp (Suc 0) = 31"
  "monthStart lp (Suc (Suc 0)) = (if lp then 60 else 59)"
  "monthStart lp (Suc 2) = (if lp then 91 else 90)"
  "monthStart lp (Suc 3) = (if lp then 121 else 120)"
  "monthStart lp (Suc 4) = (if lp then 152 else 151)"
  "monthStart lp (Suc 5) = (if lp then 182 else 181)"
  "monthStart lp (Suc 6) = (if lp then 213 else 212)"
  "monthStart lp (Suc 7) = (if lp then 244 else 243)"
  "monthStart lp (Suc 8) = (if lp then 274 else 273)"
  "monthStart lp (Suc 9) = (if lp then 305 else 304)"
  "monthStart lp (Suc 10) = (if lp then 335 else 334)"
  "monthStart lp (Suc 11) = (if lp then 366 else 365)"
  by (simp_all add: monthStart_def)

lemma month_bracket:
  assumes "0 \<le> dy" and "dy < monthStart lp 12"
  shows "MonthFromDayInYear lp dy \<le> 11
         \<and> monthStart lp (MonthFromDayInYear lp dy) \<le> dy
         \<and> dy < monthStart lp (Suc (MonthFromDayInYear lp dy))"
  using assms
  by (cases lp) (simp_all add: MonthFromDayInYear_def monthStart_values monthStart_Suc_values)

text \<open>The time within the day, in whole seconds.\<close>

lemma div_by_seconds:
  fixes x :: int
  shows "x div 3600000 = x div 1000 div 3600" and "x div 60000 = x div 1000 div 60"
proof -
  have "x div (1000 * 3600) = x div 1000 div 3600" by (rule zdiv_zmult2_eq) simp
  then show "x div 3600000 = x div 1000 div 3600" by simp
  have "x div (1000 * 60) = x div 1000 div 60" by (rule zdiv_zmult2_eq) simp
  then show "x div 60000 = x div 1000 div 60" by simp
qed

lemma seconds_split:
  fixes a :: int
  shows "(a div 3600) * 3600 + (a div 60 mod 60) * 60 + a mod 60 = a"
proof -
  have "a div (60 * 60) = a div 60 div 60" by (rule zdiv_zmult2_eq) simp
  then have h: "a div 3600 = a div 60 div 60" by simp
  have "a div 60 = 60 * (a div 60 div 60) + a div 60 mod 60" by simp
  moreover have "a = 60 * (a div 60) + a mod 60" by simp
  ultimately show ?thesis unfolding h by linarith
qed

lemma seconds_bounds:
  fixes a :: int
  assumes "0 \<le> a" and "a < 86400"
  shows "0 \<le> a div 3600" and "a div 3600 \<le> 23"
    and "0 \<le> a div 60 mod 60" and "a div 60 mod 60 \<le> 59"
    and "0 \<le> a mod 60" and "a mod 60 \<le> 59"
proof -
  show "0 \<le> a div 3600" using assms by (simp add: pos_imp_zdiv_nonneg_iff)
  have "a div 3600 \<le> 86399 div 3600" using assms by (intro zdiv_mono1) simp_all
  then show "a div 3600 \<le> 23" by simp
  show "0 \<le> a div 60 mod 60" by simp
  have "a div 60 mod 60 < 60" by simp
  then show "a div 60 mod 60 \<le> 59" by linarith
  show "0 \<le> a mod 60" by simp
  have "a mod 60 < 60" by simp
  then show "a mod 60 \<le> 59" by linarith
qed

lemma within_day:
  fixes t :: int
  shows "0 \<le> t mod msPerDay" and "t mod msPerDay < msPerDay"
    and "0 \<le> t mod msPerDay div 1000" and "t mod msPerDay div 1000 < 86400"
proof -
  show a: "0 \<le> t mod msPerDay" by (simp add: msPerDay_def)
  show b: "t mod msPerDay < msPerDay" by (simp add: msPerDay_def)
  show "0 \<le> t mod msPerDay div 1000" using a by (simp add: pos_imp_zdiv_nonneg_iff)
  have "t mod msPerDay \<le> 86399999" using b by (simp add: msPerDay_def)
  then have "t mod msPerDay div 1000 \<le> 86399999 div 1000" by (intro zdiv_mono1) simp_all
  then show "t mod msPerDay div 1000 < 86400" by simp
qed

lemma millis_of_day:
  fixes t :: int
  shows "t mod msPerDay mod 1000 = t mod 1000"
  unfolding msPerDay_def by (rule mod_mod_cancel) simp

lemma div_mod_of_sum:
  fixes q r n :: int
  assumes "0 \<le> r" and "r < n"
  shows "(q * n + r) div n = q" and "(q * n + r) mod n = r"
proof -
  have e: "q * n + r = n * q + r" by simp
  show "(q * n + r) div n = q" using assms by (intro int_div_pos_eq [OF e])
  show "(q * n + r) mod n = r" using assms by (intro int_mod_pos_eq [OF e])
qed

text \<open>Dropping the milliseconds of a time value keeps its day and its second.\<close>

lemma truncated_time:
  fixes t :: int
  defines "t' \<equiv> t - t mod 1000"
  shows "t' div msPerDay = t div msPerDay"
    and "t' mod msPerDay = t mod msPerDay - t mod 1000"
    and "t' mod msPerDay div 1000 = t mod msPerDay div 1000"
    and "t' mod msPerDay mod 1000 = 0"
proof -
  define tw where "tw = t mod msPerDay"
  define a where "a = tw div 1000"
  have ms: "tw mod 1000 = t mod 1000" unfolding tw_def by (rule millis_of_day)
  have tw: "tw = 1000 * a + t mod 1000" unfolding a_def using ms by (metis mult_div_mod_eq)
  have a: "0 \<le> a" "a < 86400" unfolding a_def tw_def by (rule within_day)+
  have t: "t = (t div msPerDay) * msPerDay + tw" unfolding tw_def by simp
  have t': "t' = (t div msPerDay) * msPerDay + 1000 * a"
    unfolding t'_def using t tw by linarith
  have r: "0 \<le> 1000 * a" "1000 * a < msPerDay" using a by (simp_all add: msPerDay_def)
  show d: "t' div msPerDay = t div msPerDay" unfolding t' by (rule div_mod_of_sum [OF r])
  have m: "t' mod msPerDay = 1000 * a" unfolding t' by (rule div_mod_of_sum [OF r])
  show "t' mod msPerDay = t mod msPerDay - t mod 1000" using m tw unfolding tw_def by linarith
  show "t' mod msPerDay div 1000 = t mod msPerDay div 1000"
    unfolding m using a_def tw_def by simp
  show "t' mod msPerDay mod 1000 = 0" unfolding m by simp
qed

lemma fieldsOf_time:
  "fHours (fieldsOf t) = t mod msPerDay div 1000 div 3600"
  "fMinutes (fieldsOf t) = t mod msPerDay div 1000 div 60 mod 60"
  "fSeconds (fieldsOf t) = t mod msPerDay div 1000 mod 60"
  "fMillis (fieldsOf t) = t mod 1000"
  by (simp_all add: fieldsOf_def Let_def div_by_seconds millis_of_day)

lemma fieldsOf_date:
  "fYear (fieldsOf t) = YearFromDay (t div msPerDay)"
  "fMonth (fieldsOf t) =
     MonthFromDayInYear (InLeapYear (YearFromDay (t div msPerDay)))
       (t div msPerDay - DayFromYear (YearFromDay (t div msPerDay)))"
  "fDate (fieldsOf t) =
     t div msPerDay - DayFromYear (YearFromDay (t div msPerDay))
       - monthStart (InLeapYear (YearFromDay (t div msPerDay))) (fMonth (fieldsOf t)) + 1"
  by (simp_all add: fieldsOf_def Let_def)

lemma fieldsOf_truncated:
  "fYear (fieldsOf (t - t mod 1000)) = fYear (fieldsOf t)"
  "fMonth (fieldsOf (t - t mod 1000)) = fMonth (fieldsOf t)"
  "fDate (fieldsOf (t - t mod 1000)) = fDate (fieldsOf t)"
  "fHours (fieldsOf (t - t mod 1000)) = fHours (fieldsOf t)"
  "fMinutes (fieldsOf (t - t mod 1000)) = fMinutes (fieldsOf t)"
  "fSeconds (fieldsOf (t - t mod 1000)) = fSeconds (fieldsOf t)"
  unfolding fieldsOf_time fieldsOf_date truncated_time(1,3) by (rule refl)+

lemma day_in_year:
  "0 \<le> t div msPerDay - DayFromYear (YearFromDay (t div msPerDay))"
  "t div msPerDay - DayFromYear (YearFromDay (t div msPerDay))
     < monthStart (InLeapYear (YearFromDay (t div msPerDay))) 12"
  using YearFromDay_bracket [of "t div msPerDay"]
  by (simp_all add: monthStart_values DaysInYear_def)

lemma fieldsOf_month: "fMonth (fieldsOf t) \<le> 11"
  unfolding fieldsOf_date using month_bracket [OF day_in_year, of t] by simp

lemma fieldsOf_day_of_month:
  "1 \<le> fDate (fieldsOf t)" "fDate (fieldsOf t) \<le> DaysInMonth (fYear (fieldsOf t)) (fMonth (fieldsOf t))"
  using month_bracket [OF day_in_year, of t]
  by (simp_all add: fieldsOf_date DaysInMonth_def)

lemma fieldsOf_clock:
  "0 \<le> fHours (fieldsOf t)" "fHours (fieldsOf t) \<le> 23"
  "0 \<le> fMinutes (fieldsOf t)" "fMinutes (fieldsOf t) \<le> 59"
  "0 \<le> fSeconds (fieldsOf t)" "fSeconds (fieldsOf t) \<le> 59"
  unfolding fieldsOf_time by (rule seconds_bounds [OF within_day(3,4)])+

lemma MakeDay_fieldsOf:
  "MakeDay (fYear (fieldsOf t)) (fMonth (fieldsOf t)) (fDate (fieldsOf t)) = t div msPerDay"
  by (simp add: MakeDay_def fieldsOf_date)

lemma MakeTime_fieldsOf:
  "MakeTime (fHours (fieldsOf t)) (fMinutes (fieldsOf t)) (fSeconds (fieldsOf t)) 0
     = t mod msPerDay - t mod 1000"
proof -
  define a where "a = t mod msPerDay div 1000"
  have "t mod msPerDay = 1000 * a + t mod msPerDay mod 1000"
    unfolding a_def by simp
  then have tw: "t mod msPerDay - t mod 1000 = 1000 * a" by (simp add: millis_of_day)
  have f: "fHours (fieldsOf t) = a div 3600" "fMinutes (fieldsOf t) = a div 60 mod 60"
    "fSeconds (fieldsOf t) = a mod 60"
    unfolding a_def by (rule fieldsOf_time)+
  have "1000 * (a div 3600 * 3600 + a div 60 mod 60 * 60 + a mod 60) = 1000 * a"
    by (simp only: seconds_split)
  then have "a div 3600 * 3600000 + a div 60 mod 60 * 60000 + a mod 60 * 1000 + 0 = 1000 * a"
    by (simp only: distrib_left mult.assoc [symmetric] mult.commute [of 1000] add_0_right)
  then show ?thesis unfolding MakeTime_def f tw .
qed

lemma MakeDate_fieldsOf:
  "MakeDate (MakeDay (fYear (fieldsOf t)) (fMonth (fieldsOf t)) (fDate (fieldsOf t)))
     (MakeTime (fHours (fieldsOf t)) (fMinutes (fieldsOf t)) (fSeconds (fieldsOf t)) 0)
   = t - t mod 1000"
proof -
  have "t = t div msPerDay * msPerDay + t mod msPerDay" by simp
  then show ?thesis unfolding MakeDay_fieldsOf MakeTime_fieldsOf MakeDate_def by linarith
qed

section \<open>Formatting a date and reading it back\<close>

lemma no_dot_padNat: "CHR ''.'' \<notin> set (padNat w n)"
  by (induction w arbitrary: n) (simp_all add: digitChar_not_punct(1) [symmetric])

lemma no_dot_pad2: "CHR ''.'' \<notin> set (pad2 n)"
  by (simp add: pad2_def digitChar_not_punct(1) [symmetric])

lemma no_dot_yearString: "CHR ''.'' \<notin> set (yearString y)"
  by (simp add: yearString_def no_dot_padNat)

lemma no_dot_isoSeconds: "CHR ''.'' \<notin> set (isoSeconds f)"
  by (simp add: isoSeconds_def no_dot_yearString no_dot_pad2)

lemma beforeDot_isoSeconds: "beforeDot (isoSeconds f @ CHR ''.'' # zs) = isoSeconds f"
proof -
  have "takeWhile (\<lambda>c. c \<noteq> CHR ''.'') (isoSeconds f @ CHR ''.'' # zs)
          = isoSeconds f @ takeWhile (\<lambda>c. c \<noteq> CHR ''.'') (CHR ''.'' # zs)"
    using no_dot_isoSeconds [of f] by (intro takeWhile_append2) auto
  then show ?thesis by (simp add: beforeDot_def)
qed

text \<open>What the program makes of a valid date: its ISO text cut at the dot, and \<open>Z\<close>.\<close>

lemma toISOString_Some:
  "(toISOString (Some t) :: 'e thrown + string)
     = Inr (isoSeconds (fieldsOf t) @ ''.'' @ pad3 (nat (fMillis (fieldsOf t))) @ ''Z'')"
  by (simp add: toISOString_def)

lemma toISOString_None: "(toISOString None :: 'e thrown + string) = Inl RangeError"
  by (simp add: toISOString_def)

lemma pad2_shape:
  assumes "n < 100"
  shows "\<exists>a b. pad2 n = [a, b] \<and> readDigits 0 [a, b] = Some n"
  using readDigits_pad2 [OF assms] by (simp add: pad2_def)

lemma DaysInMonth_le: "m \<le> 11 \<Longrightarrow> DaysInMonth y m \<le> 31"
proof -
  assume "m \<le> 11"
  then have "m = 0 \<or> m = 1 \<or> m = 2 \<or> m = 3 \<or> m = 4 \<or> m = 5 \<or> m = 6 \<or> m = 7
               \<or> m = 8 \<or> m = 9 \<or> m = 10 \<or> m = 11" by arith
  then show ?thesis
    by (elim disjE) (simp_all add: DaysInMonth_def monthStart_values monthStart_Suc_values)
qed

lemma isoTail_explicit:
  assumes "readDigits 0 [m1, m2] = Some mo" and "readDigits 0 [a1, a2] = Some dt"
    and "readDigits 0 [h1, h2] = Some hh" and "readDigits 0 [n1, n2] = Some mi"
    and "readDigits 0 [s1, s2] = Some ss"
    and "1 \<le> mo" "mo \<le> 12" "1 \<le> dt" "int dt \<le> DaysInMonth y (mo - 1)"
    and "hh \<le> 23" "mi \<le> 59" "ss \<le> 59"
  shows "isoTail y ([CHR ''-'', m1, m2, CHR ''-'', a1, a2, CHR ''T'', h1, h2, CHR '':'', n1, n2,
                     CHR '':'', s1, s2] @ ''Z'')
         = TimeClip (MakeDate (MakeDay y (mo - 1) (int dt))
                              (MakeTime (int hh) (int mi) (int ss) 0))"
  unfolding isoTail_def using assms
  by (simp add: fracMillis_def del: readDigits.simps)

lemma isoTail_rendered:
  assumes m: "m \<le> 11"
    and d: "1 \<le> dt" "dt \<le> DaysInMonth y m"
    and h: "0 \<le> hh" "hh \<le> 23"
    and mi: "0 \<le> mi" "mi \<le> 59"
    and s: "0 \<le> ss" "ss \<le> 59"
  shows "isoTail y (''-'' @ pad2 (Suc m) @ ''-'' @ pad2 (nat dt) @ ''T'' @ pad2 (nat hh)
                      @ '':'' @ pad2 (nat mi) @ '':'' @ pad2 (nat ss) @ ''Z'')
         = TimeClip (MakeDate (MakeDay y m dt) (MakeTime hh mi ss 0))"
proof -
  have "DaysInMonth y m \<le> 31" using m by (rule DaysInMonth_le)
  with d have dt: "nat dt < 100" "1 \<le> nat dt" "int (nat dt) = dt" by linarith+
  have lt: "Suc m < 100" "nat hh < 100" "nat mi < 100" "nat ss < 100"
    using m h mi s by linarith+
  obtain m1 m2 where pm: "pad2 (Suc m) = [m1, m2]" "readDigits 0 [m1, m2] = Some (Suc m)"
    using pad2_shape [OF lt(1)] by blast
  obtain a1 a2 where pd: "pad2 (nat dt) = [a1, a2]" "readDigits 0 [a1, a2] = Some (nat dt)"
    using pad2_shape [OF dt(1)] by blast
  obtain h1 h2 where ph: "pad2 (nat hh) = [h1, h2]" "readDigits 0 [h1, h2] = Some (nat hh)"
    using pad2_shape [OF lt(2)] by blast
  obtain n1 n2 where pn: "pad2 (nat mi) = [n1, n2]" "readDigits 0 [n1, n2] = Some (nat mi)"
    using pad2_shape [OF lt(3)] by blast
  obtain s1 s2 where ps: "pad2 (nat ss) = [s1, s2]" "readDigits 0 [s1, s2] = Some (nat ss)"
    using pad2_shape [OF lt(4)] by blast
  have rng: "1 \<le> Suc m" "Suc m \<le> 12" "1 \<le> nat dt" "int (nat dt) \<le> DaysInMonth y (Suc m - 1)"
    "nat hh \<le> 23" "nat mi \<le> 59" "nat ss \<le> 59"
    using m h mi s d dt by simp_all
  have ints: "int (nat hh) = hh" "int (nat mi) = mi" "int (nat ss) = ss"
    using h mi s by simp_all
  have "isoTail y ([CHR ''-'', m1, m2, CHR ''-'', a1, a2, CHR ''T'', h1, h2, CHR '':'', n1, n2,
                     CHR '':'', s1, s2] @ ''Z'')
         = TimeClip (MakeDate (MakeDay y (Suc m - 1) (int (nat dt)))
                              (MakeTime (int (nat hh)) (int (nat mi)) (int (nat ss)) 0))"
    by (rule isoTail_explicit [OF pm(2) pd(2) ph(2) pn(2) ps(2) rng])
  then show ?thesis
    unfolding pm(1) pd(1) ph(1) pn(1) ps(1) ints dt(3) by simp
qed

lemma day_range:
  assumes "\<bar>t\<bar> \<le> maxTime"
  shows "- 100000000 \<le> t div msPerDay" and "t div msPerDay \<le> 100000000"
proof -
  have "t \<le> 8640000000000000" "- 8640000000000000 \<le> t" using assms by (simp_all add: maxTime_def)
  then have "t div 86400000 \<le> 8640000000000000 div 86400000"
    "(- 8640000000000000) div 86400000 \<le> t div 86400000"
    by (intro zdiv_mono1; simp)+
  then show "- 100000000 \<le> t div msPerDay" and "t div msPerDay \<le> 100000000"
    by (simp_all add: msPerDay_def)
qed

lemma year_range:
  assumes "\<bar>t\<bar> \<le> maxTime"
  shows "- 271821 \<le> fYear (fieldsOf t)" and "fYear (fieldsOf t) \<le> 275760"
proof -
  define d where "d = t div msPerDay"
  define y where "y = YearFromDay d"
  have b: "DayFromYear y \<le> d" "d < DayFromYear (y + 1)"
    using YearFromDay_bracket [of d] by (simp_all add: y_def DayFromYear_step)
  have d: "- 100000000 \<le> d" "d \<le> 100000000" unfolding d_def by (rule day_range [OF assms])+
  have "y \<le> 275760"
  proof (rule ccontr)
    assume "\<not> y \<le> 275760"
    then have "DayFromYear 275761 \<le> DayFromYear y" by (intro DayFromYear_mono) simp
    moreover have "100000000 < DayFromYear 275761" by (simp add: DayFromYear_def)
    ultimately show False using b d by simp
  qed
  moreover have "- 271821 \<le> y"
  proof (rule ccontr)
    assume "\<not> - 271821 \<le> y"
    then have "DayFromYear (y + 1) \<le> DayFromYear (- 271821)" by (intro DayFromYear_mono) simp
    moreover have "DayFromYear (- 271821) < - 100000000" by (simp add: DayFromYear_def)
    ultimately show False using b d by simp
  qed
  ultimately show "- 271821 \<le> fYear (fieldsOf t)" and "fYear (fieldsOf t) \<le> 275760"
    by (simp_all add: fieldsOf_date y_def d_def)
qed

lemma padNat_4:
  "padNat 4 n = [digitChar (n div 10 div 10 div 10), digitChar (n div 10 div 10),
                 digitChar (n div 10), digitChar n]"
proof -
  have "(4::nat) = Suc (Suc (Suc (Suc 0)))" by simp
  then show ?thesis by (simp only: padNat.simps append.simps)
qed

lemma isoParse_four_digits:
  assumes "0 \<le> y" and "y \<le> 9999"
  shows "isoParse (padNat 4 (nat y) @ zs) = isoTail y zs"
proof -
  obtain a b c d where e: "padNat 4 (nat y) = [a, b, c, d]" and a: "a = digitChar (nat y div 10 div 10 div 10)"
    using padNat_4 [of "nat y"] by blast
  have na: "a \<noteq> CHR ''+''" "a \<noteq> CHR ''-''" unfolding a by (rule digitChar_not_punct)+
  have "readDigits 0 (padNat 4 (nat y)) = Some (0 * 10 ^ 4 + nat y mod 10 ^ 4)"
    by (rule readDigits_padNat)
  moreover have "nat y mod 10 ^ 4 = nat y" using assms by simp
  ultimately have r: "readDigits 0 [a, b, c, d] = Some (nat y)" unfolding e by simp
  show ?thesis unfolding e using na r assms(1)
    by (simp add: isoParse_def del: readDigits.simps)
qed

lemma isoParse_six_digits:
  assumes "sg = CHR ''+'' \<or> sg = CHR ''-''" and "0 < n" and "n < 1000000"
  shows "isoParse (sg # padNat 6 n @ zs) = isoTail (if sg = CHR ''-'' then - int n else int n) zs"
proof -
  have "readDigits 0 (padNat 6 n) = Some (0 * 10 ^ 6 + n mod 10 ^ 6)"
    by (rule readDigits_padNat)
  moreover have "n mod 10 ^ 6 = n" using assms by simp
  ultimately have r: "readDigits 0 (padNat 6 n) = Some n" by simp
  show ?thesis using assms r by (auto simp: isoParse_def length_padNat simp del: padNat.simps readDigits.simps)
qed

lemma isoParse_yearString:
  assumes "- 999999 \<le> y" and "y \<le> 999999"
  shows "isoParse (yearString y @ zs) = isoTail y zs"
proof (cases "0 \<le> y \<and> y \<le> 9999")
  case True
  then show ?thesis by (simp add: yearString_def isoParse_four_digits del: padNat.simps)
next
  case False
  show ?thesis
  proof (cases "y < 0")
    case True
    have "isoParse (CHR ''-'' # padNat 6 (nat \<bar>y\<bar>) @ zs)
            = isoTail (if CHR ''-'' = CHR ''-'' then - int (nat \<bar>y\<bar>) else int (nat \<bar>y\<bar>)) zs"
      using True assms by (intro isoParse_six_digits) simp_all
    with True show ?thesis by (simp add: yearString_def del: padNat.simps)
  next
    case n: False
    have "isoParse (CHR ''+'' # padNat 6 (nat \<bar>y\<bar>) @ zs)
            = isoTail (if CHR ''+'' = CHR ''-'' then - int (nat \<bar>y\<bar>) else int (nat \<bar>y\<bar>)) zs"
      using n False assms by (intro isoParse_six_digits) simp_all
    with n False show ?thesis by (simp add: yearString_def del: padNat.simps)
  qed
qed

lemma truncated_in_range:
  assumes "\<bar>t\<bar> \<le> maxTime"
  shows "\<bar>t - t mod 1000\<bar> \<le> maxTime"
proof -
  have t: "t \<le> 8640000000000000" "- 8640000000000000 \<le> t" using assms by (simp_all add: maxTime_def)
  have "(- 8640000000000000) div 1000 \<le> t div 1000" using t by (intro zdiv_mono1) simp_all
  then have "- 8640000000000 \<le> t div 1000" by simp
  moreover have "t - t mod 1000 = 1000 * (t div 1000)" by (simp add: minus_mod_eq_mult_div)
  moreover have "0 \<le> t mod 1000" by simp
  ultimately show ?thesis using t by (simp add: maxTime_def)
qed

text \<open>Reading back the text the program writes for a time value gives the time value
  without its milliseconds.\<close>

lemma isoParse_isoSeconds:
  assumes "\<bar>t\<bar> \<le> maxTime"
  shows "isoParse (isoSeconds (fieldsOf t) @ ''Z'') = Some (t - t mod 1000)"
proof -
  let ?f = "fieldsOf t"
  have y: "- 999999 \<le> fYear ?f" "fYear ?f \<le> 999999"
    using year_range [OF assms] by simp_all
  have "isoSeconds ?f @ ''Z''
          = yearString (fYear ?f) @ (''-'' @ pad2 (Suc (fMonth ?f)) @ ''-'' @ pad2 (nat (fDate ?f))
              @ ''T'' @ pad2 (nat (fHours ?f)) @ '':'' @ pad2 (nat (fMinutes ?f))
              @ '':'' @ pad2 (nat (fSeconds ?f)) @ ''Z'')"
    by (simp add: isoSeconds_def)
  then have "isoParse (isoSeconds ?f @ ''Z'')
          = isoTail (fYear ?f) (''-'' @ pad2 (Suc (fMonth ?f)) @ ''-'' @ pad2 (nat (fDate ?f))
              @ ''T'' @ pad2 (nat (fHours ?f)) @ '':'' @ pad2 (nat (fMinutes ?f))
              @ '':'' @ pad2 (nat (fSeconds ?f)) @ ''Z'')"
    by (simp only: isoParse_yearString [OF y])
  also have "\<dots> = TimeClip (MakeDate (MakeDay (fYear ?f) (fMonth ?f) (fDate ?f))
                        (MakeTime (fHours ?f) (fMinutes ?f) (fSeconds ?f) 0))"
    by (rule isoTail_rendered [OF fieldsOf_month fieldsOf_day_of_month fieldsOf_clock])
  also have "\<dots> = TimeClip (t - t mod 1000)" by (simp only: MakeDate_fieldsOf)
  also have "\<dots> = Some (t - t mod 1000)"
    using truncated_in_range [OF assms] by (simp add: TimeClip_def)
  finally show ?thesis .
qed

section \<open>Facts about the normalisation\<close>

lemma TimeClip_range: "TimeClip x = Some t \<Longrightarrow> \<bar>t\<bar> \<le> maxTime"
  by (auto simp: TimeClip_def split: if_splits)

lemma isoTail_range: "isoTail y r = Some t \<Longrightarrow> \<bar>t\<bar> \<le> maxTime"
  unfolding isoTail_def
  by (auto split: list.splits option.splits if_splits dest: TimeClip_range)

lemma isoParse_range: "isoParse s = Some t \<Longrightarrow> \<bar>t\<bar> \<le> maxTime"
  unfolding isoParse_def
  by (auto split: list.splits option.splits if_splits dest: isoTail_range)

lemma Date_parse_range: "Date_parse rt s = Some t \<Longrightarrow> \<bar>t\<bar> \<le> maxTime"
  unfolding Date_parse_def
  by (auto split: option.splits dest: isoParse_range TimeClip_range)

lemma truncateRat_range:
  assumes "\<bar>r\<bar> \<le> of_int maxTime"
  shows "\<bar>truncateRat r\<bar> \<le> maxTime"
proof (cases "0 \<le> r")
  case True
  then have "0 \<le> \<lfloor>r\<rfloor>" by simp
  moreover have "\<lfloor>r\<rfloor> \<le> maxTime" using assms True by (simp add: floor_le_iff)
  ultimately show ?thesis using True by (simp add: truncateRat_def)
next
  case False
  then have "\<lceil>r\<rceil> \<le> 0" by (simp add: ceiling_le_iff)
  moreover have "- maxTime \<le> \<lceil>r\<rceil>" using assms False by (simp add: le_ceiling_iff)
  ultimately show ?thesis using False by (simp add: truncateRat_def)
qed

lemma newDate_error_free:
  "newDate rt v = (Inr d :: 'a thrown + int option) \<Longrightarrow> newDate rt v = (Inr d :: 'b thrown + int option)"
  by (cases v; cases "toStringJS rt v") (auto simp del: toStringJS.simps)

lemma newDate_Inl:
  "(newDate rt v :: 'e thrown + int option) = Inl e \<Longrightarrow> e = TypeError \<and> toStringJS rt v = None"
  by (cases v; cases "toStringJS rt v") (auto simp del: toStringJS.simps)

lemma newDate_unconvertible:
  "toStringJS rt v = None \<Longrightarrow> (newDate rt v :: 'e thrown + int option) = Inl TypeError"
  by (cases v) (auto simp del: toStringJS.simps, simp_all)

lemma newDate_range:
  assumes "(newDate rt v :: 'e thrown + int option) = Inr (Some t)"
  shows "\<bar>t\<bar> \<le> maxTime"
proof (cases v)
  case (JNum n)
  show ?thesis
  proof (cases n)
    case (Fin r)
    with JNum assms have "\<bar>r\<bar> \<le> of_int maxTime" "t = truncateRat r"
      by (auto simp: timeOfNumber_def split: if_splits)
    then show ?thesis using truncateRat_range [of r] by simp
  qed (use JNum assms in \<open>auto simp: timeOfNumber_def maxTime_def\<close>)
next
  case (JBool b)
  with assms show ?thesis by (auto simp: maxTime_def split: if_splits)
next
  case JNull
  with assms show ?thesis by (auto simp: maxTime_def)
qed (use assms in \<open>auto simp del: toStringJS.simps split: option.splits dest: Date_parse_range\<close>)

lemma isoSeconds_truncated: "isoSeconds (fieldsOf (t - t mod 1000)) = isoSeconds (fieldsOf t)"
  by (simp add: isoSeconds_def fieldsOf_truncated)

lemma kickoffText_written:
  "(toISOString (Some t) :: 'e thrown + string) = Inr isoText \<Longrightarrow> beforeDot isoText @ ''Z'' = kickoffText t"
  by (auto simp: toISOString_Some beforeDot_isoSeconds kickoffText_def)

lemma newDate_kickoffText:
  assumes "\<bar>t\<bar> \<le> maxTime"
  shows "(newDate rt (JStr (kickoffText t)) :: 'e thrown + int option) = Inr (Some (t - t mod 1000))"
  using isoParse_isoSeconds [OF assms] by (simp add: kickoffText_def Date_parse_def)

lemma kickoffText_truncated: "kickoffText (t - t mod 1000) = kickoffText t"
  by (simp add: kickoffText_def isoSeconds_truncated)


lemma replaceValue_length: "length (replaceValue k v kvs) = length kvs"
  by (induction kvs) auto

lemma replaceValue_lookup: "k \<in> fst ` set kvs \<Longrightarrow> map_of (replaceValue k v kvs) k = Some v"
  by (induction kvs) force+


lemma replaceValue_again: "replaceValue k v (replaceValue k v kvs) = replaceValue k v kvs"
  by (induction kvs) auto

lemma replaceValue_has_key: "k \<in> fst ` set kvs \<Longrightarrow> k \<in> fst ` set (replaceValue k v kvs)"
  by (induction kvs) force+

text \<open>What the mapped function does, case by case.\<close>

lemma normalizeChallenge_nullish:
  "nullish ch \<Longrightarrow> (normalizeChallenge rt ch :: 'e thrown + jsval) = Inl TypeError"
  by (cases ch) (simp_all add: normalizeChallenge_def)

lemma normalizeChallenge_invalid_date:
  assumes "(getMember ch ''kickoffTime'' :: 'e thrown + jsval) = Inr k"
    and "(newDate rt k :: 'e thrown + int option) = Inr None"
  shows "(normalizeChallenge rt ch :: 'e thrown + jsval) = Inl RangeError"
  using assms by (simp add: normalizeChallenge_def toISOString_None)

lemma normalizeChallenge_unconvertible:
  assumes "(getMember ch ''kickoffTime'' :: 'e thrown + jsval) = Inr k"
    and "(newDate rt k :: 'e thrown + int option) = Inl e"
  shows "(normalizeChallenge rt ch :: 'e thrown + jsval) = Inl TypeError"
  using assms newDate_Inl [OF assms(2)] by (simp add: normalizeChallenge_def)

lemma normalizeChallenge_valid_date:
  assumes "(getMember ch ''kickoffTime'' :: 'e thrown + jsval) = Inr k"
    and "(newDate rt k :: 'e thrown + int option) = Inr (Some t)"
  shows "(normalizeChallenge rt ch :: 'e thrown + jsval)
           = Inr (JObj (setMember (spread ch) ''kickoffTime'' (JStr (kickoffText t))))"
  using assms kickoffText_written [of t, where ?'e = 'e]
  by (simp add: normalizeChallenge_def toISOString_Some)

lemma getMember_Inr_cases:
  "(getMember ch k :: 'e thrown + jsval) = Inr v \<Longrightarrow>
     (\<exists>kvs. ch = JObj kvs \<and> v = (case map_of kvs k of None \<Rightarrow> JUndefined | Some x \<Rightarrow> x))
     \<or> ((\<forall>kvs. ch \<noteq> JObj kvs) \<and> v = JUndefined)"
  by (cases ch) auto

lemma getMember_error_free: "getMember ch k = (Inr v :: 'a thrown + jsval) \<Longrightarrow> getMember ch k = (Inr v :: 'b thrown + jsval)"
  by (cases ch) auto

text \<open>A challenge that is rewritten is an object that has the key, and only the value
  at its first \<open>kickoffTime\<close> changes.\<close>

lemma normalizeChallenge_Inr:
  assumes "(normalizeChallenge rt ch :: 'e thrown + jsval) = Inr ch'"
  shows "\<exists>kvs k t. ch = JObj kvs \<and> map_of kvs ''kickoffTime'' = Some k
           \<and> (newDate rt k :: 'e thrown + int option) = Inr (Some t)
           \<and> ch' = JObj (replaceValue ''kickoffTime'' (JStr (kickoffText t)) kvs)"
proof -
  obtain k where k: "(getMember ch ''kickoffTime'' :: 'e thrown + jsval) = Inr k"
    using assms by (auto simp: normalizeChallenge_def split: sum.splits)
  obtain t where t: "(newDate rt k :: 'e thrown + int option) = Inr (Some t)"
  proof (cases "newDate rt k :: 'e thrown + int option")
    case (Inl e)
    with assms normalizeChallenge_unconvertible [OF k Inl] show ?thesis by simp
  next
    case (Inr date)
    with assms normalizeChallenge_invalid_date [OF k, of rt] that show ?thesis
      by (cases date) auto
  qed
  have ch': "ch' = JObj (setMember (spread ch) ''kickoffTime'' (JStr (kickoffText t)))"
    using assms normalizeChallenge_valid_date [OF k t] by simp
  have "k \<noteq> JUndefined" using t by auto
  with getMember_Inr_cases [OF k] obtain kvs where
    kvs: "ch = JObj kvs" "k = (case map_of kvs ''kickoffTime'' of None \<Rightarrow> JUndefined | Some x \<Rightarrow> x)"
    by auto
  with \<open>k \<noteq> JUndefined\<close> have look: "map_of kvs ''kickoffTime'' = Some k"
    by (cases "map_of kvs ''kickoffTime''") auto
  then have "''kickoffTime'' \<in> fst ` set kvs" by (metis map_of_eq_None_iff option.distinct(1))
  then have "setMember (spread ch) ''kickoffTime'' (JStr (kickoffText t))
               = replaceValue ''kickoffTime'' (JStr (kickoffText t)) kvs"
    using kvs(1) by (simp add: setMember_def)
  with ch' kvs(1) look t show ?thesis by blast
qed

lemma normalizeChallenge_idempotent:
  assumes "(normalizeChallenge rt ch :: 'e thrown + jsval) = Inr ch'"
  shows "(normalizeChallenge rt ch' :: 'e thrown + jsval) = Inr ch'"
proof -
  from normalizeChallenge_Inr [OF assms] obtain kvs k t where
    ch: "ch = JObj kvs" and look: "map_of kvs ''kickoffTime'' = Some k"
    and t: "(newDate rt k :: 'e thrown + int option) = Inr (Some t)"
    and ch': "ch' = JObj (replaceValue ''kickoffTime'' (JStr (kickoffText t)) kvs)"
    by blast
  let ?kvs' = "replaceValue ''kickoffTime'' (JStr (kickoffText t)) kvs"
  have key: "''kickoffTime'' \<in> fst ` set kvs" using look by (metis map_of_eq_None_iff option.distinct(1))
  have key': "''kickoffTime'' \<in> fst ` set ?kvs'" using key by (rule replaceValue_has_key)
  have g: "(getMember ch' ''kickoffTime'' :: 'e thrown + jsval) = Inr (JStr (kickoffText t))"
    unfolding ch' using replaceValue_lookup [OF key] by simp
  have d: "(newDate rt (JStr (kickoffText t)) :: 'e thrown + int option) = Inr (Some (t - t mod 1000))"
    by (rule newDate_kickoffText [OF newDate_range [OF t]])
  have "(normalizeChallenge rt ch' :: 'e thrown + jsval)
          = Inr (JObj (setMember (spread ch') ''kickoffTime'' (JStr (kickoffText (t - t mod 1000)))))"
    by (rule normalizeChallenge_valid_date [OF g d])
  also have "setMember (spread ch') ''kickoffTime'' (JStr (kickoffText (t - t mod 1000))) = ?kvs'"
    unfolding ch' kickoffText_truncated using key' by (simp add: setMember_def replaceValue_again)
  finally show ?thesis unfolding ch' .
qed

lemma mapThrowing_Inr_iff:
  "mapThrowing f xs = Inr ys \<longleftrightarrow> list_all2 (\<lambda>x y. f x = Inr y) xs ys"
proof (induction xs arbitrary: ys)
  case Nil
  show ?case by auto
next
  case (Cons x xs)
  show ?case by (cases ys) (auto simp: Cons [symmetric] split: sum.splits)
qed

lemma mapThrowing_total:
  "(\<And>x. x \<in> set xs \<Longrightarrow> \<exists>y. f x = Inr y) \<Longrightarrow> \<exists>ys. mapThrowing f xs = Inr ys"
proof (induction xs)
  case Nil
  show ?case by simp
next
  case (Cons x xs)
  then obtain y ys where "f x = Inr y" "mapThrowing f xs = Inr ys" by (meson list.set_intros)
  then show ?case by simp
qed

lemma mapThrowing_error:
  "mapThrowing f xs = Inl e \<Longrightarrow> \<exists>x \<in> set xs. f x = Inl e"
  by (induction xs) (auto split: sum.splits)

lemma mapThrowing_idempotent:
  assumes "\<And>x y. f x = Inr y \<Longrightarrow> f y = Inr y" and "mapThrowing f xs = Inr ys"
  shows "mapThrowing f ys = Inr ys"
proof -
  have "list_all2 (\<lambda>x y. f x = Inr y) xs ys" using assms(2) by (simp add: mapThrowing_Inr_iff)
  then have "list_all2 (\<lambda>x y. f x = Inr y) ys ys"
    using assms(1) by (induction rule: list_all2_induct) auto
  then show ?thesis by (simp add: mapThrowing_Inr_iff)
qed

lemma validChallenge_normalizes:
  assumes "validChallenge rt ch"
  shows "\<exists>ch'. (normalizeChallenge rt ch :: 'e thrown + jsval) = Inr ch'"
proof -
  from assms obtain k where k: "(getMember ch ''kickoffTime'' :: unit thrown + jsval) = Inr k"
    and d: "\<exists>t. (newDate rt k :: unit thrown + int option) = Inr (Some t)"
    by (auto simp: validChallenge_def split: sum.splits)
  from d obtain t where "(newDate rt k :: unit thrown + int option) = Inr (Some t)" by auto
  then have t: "(newDate rt k :: 'e thrown + int option) = Inr (Some t)"
    by (rule newDate_error_free)
  have "(getMember ch ''kickoffTime'' :: 'e thrown + jsval) = Inr k"
    using k by (rule getMember_error_free)
  from normalizeChallenge_valid_date [OF this t] show ?thesis by blast
qed

lemma normalizes_validChallenge:
  assumes "(normalizeChallenge rt ch :: 'e thrown + jsval) = Inr ch'"
  shows "validChallenge rt ch"
proof -
  from normalizeChallenge_Inr [OF assms] obtain kvs k t where
    ch: "ch = JObj kvs" and look: "map_of kvs ''kickoffTime'' = Some k"
    and t: "(newDate rt k :: 'e thrown + int option) = Inr (Some t)"
    by blast
  have "(newDate rt k :: unit thrown + int option) = Inr (Some t)"
    using t by (rule newDate_error_free)
  with ch look show ?thesis by (simp add: validChallenge_def)
qed

text \<open>The error of a challenge that is not rewritten.\<close>

lemma normalizeChallenge_errors:
  assumes "(normalizeChallenge rt ch :: 'e thrown + jsval) = Inl e"
  shows "\<not> validChallenge rt ch
           \<and> e = (if nullish ch \<or> unconvertible rt ch then TypeError else RangeError)"
proof -
  have invalid: "\<not> validChallenge rt ch"
    using validChallenge_normalizes [of rt ch, where ?'e = 'e] assms by auto
  show ?thesis
  proof (cases "nullish ch")
    case True
    with assms invalid normalizeChallenge_nullish [OF True, of rt, where ?'e = 'e] show ?thesis
      by simp
  next
    case False
    then obtain k where k: "(getMember ch ''kickoffTime'' :: 'e thrown + jsval) = Inr k"
      by (cases ch) auto
    have ku: "(getMember ch ''kickoffTime'' :: unit thrown + jsval) = Inr k"
      using k by (rule getMember_error_free)
    show ?thesis
    proof (cases "newDate rt k :: 'e thrown + int option")
      case (Inl e')
      have "unconvertible rt ch" using ku newDate_Inl [OF Inl] by (simp add: unconvertible_def)
      with assms invalid normalizeChallenge_unconvertible [OF k Inl] show ?thesis by simp
    next
      case (Inr date)
      have "toStringJS rt k \<noteq> None"
        using newDate_unconvertible [of rt k, where ?'e = 'e] Inr by auto
      then have nu: "\<not> unconvertible rt ch" using ku by (simp add: unconvertible_def)
      show ?thesis
      proof (cases date)
        case None
        with Inr assms invalid False nu normalizeChallenge_invalid_date [OF k, of rt] show ?thesis
          by simp
      next
        case (Some t)
        with Inr assms normalizeChallenge_valid_date [OF k, of rt t] show ?thesis by simp
      qed
    qed
  qed
qed

text \<open>The map ends at its first element that throws.\<close>

lemma mapThrowing_first_error:
  "mapThrowing f xs = Inl e \<Longrightarrow>
     \<exists>pre x post. xs = pre @ x # post \<and> (\<forall>p \<in> set pre. \<exists>y. f p = Inr y) \<and> f x = Inl e"
proof (induction xs)
  case Nil
  then show ?case by simp
next
  case (Cons a xs)
  show ?case
  proof (cases "f a")
    case (Inl e')
    with Cons.prems have "f a = Inl e" by simp
    then have "a # xs = [] @ a # xs \<and> (\<forall>p \<in> set []. \<exists>y. f p = Inr y) \<and> f a = Inl e" by simp
    then show ?thesis by blast
  next
    case (Inr y)
    with Cons.prems have "mapThrowing f xs = Inl e" by (auto split: sum.splits)
    from Cons.IH [OF this] obtain pre x post where
      "xs = pre @ x # post" "\<forall>p \<in> set pre. \<exists>y. f p = Inr y" "f x = Inl e" by blast
    with Inr have "a # xs = (a # pre) @ x # post \<and> (\<forall>p \<in> set (a # pre). \<exists>y. f p = Inr y) \<and> f x = Inl e"
      by simp
    then show ?thesis by blast
  qed
qed

lemma normalizeChallenges_valid:
  assumes "list_all (validChallenge rt) xs"
  shows "\<exists>ys. (normalizeChallenges rt (JArr xs) :: 'e thrown + jsval) = Inr (JArr ys)
               \<and> list_all2 (\<lambda>x y. (normalizeChallenge rt x :: 'e thrown + jsval) = Inr y) xs ys"
proof -
  have "\<exists>ys. mapThrowing (normalizeChallenge rt :: jsval \<Rightarrow> 'e thrown + jsval) xs = Inr ys"
    using assms by (intro mapThrowing_total validChallenge_normalizes) (simp add: list_all_iff)
  then obtain ys where ys: "mapThrowing (normalizeChallenge rt :: jsval \<Rightarrow> 'e thrown + jsval) xs = Inr ys"
    by blast
  have "list_all2 (\<lambda>x y. (normalizeChallenge rt x :: 'e thrown + jsval) = Inr y) xs ys"
    using ys by (simp add: mapThrowing_Inr_iff)
  moreover have "(normalizeChallenges rt (JArr xs) :: 'e thrown + jsval) = Inr (JArr ys)"
    using ys by (simp add: normalizeChallenges_def)
  ultimately show ?thesis by blast
qed

lemma normalizeChallenges_Inr:
  assumes "(normalizeChallenges rt v :: 'e thrown + jsval) = Inr n"
  shows "\<exists>xs ys. v = JArr xs \<and> n = JArr ys
           \<and> mapThrowing (normalizeChallenge rt :: jsval \<Rightarrow> 'e thrown + jsval) xs = Inr ys"
  using assms by (cases v) (auto simp: normalizeChallenges_def split: sum.splits)

lemma normalizeChallenges_idempotent:
  assumes "(normalizeChallenges rt v :: 'e thrown + jsval) = Inr n"
  shows "(normalizeChallenges rt n :: 'e thrown + jsval) = Inr n"
proof -
  from normalizeChallenges_Inr [OF assms] obtain xs ys where
    v: "v = JArr xs" and n: "n = JArr ys"
    and m: "mapThrowing (normalizeChallenge rt :: jsval \<Rightarrow> 'e thrown + jsval) xs = Inr ys"
    by blast
  have "mapThrowing (normalizeChallenge rt :: jsval \<Rightarrow> 'e thrown + jsval) ys = Inr ys"
    using normalizeChallenge_idempotent m by (rule mapThrowing_idempotent)
  then show ?thesis by (simp add: n normalizeChallenges_def)
qed

section \<open>Worked examples\<close>

lemma padNat_numeral: "padNat (numeral k) n = padNat (pred_numeral k) (n div 10) @ [digitChar n]"
proof -
  have "numeral k = Suc (pred_numeral k)" by (rule numeral_eq_Suc)
  then show ?thesis by (simp only: padNat.simps)
qed

lemmas parse_eval =
  isoParse_def isoTail_def fracMillis_def digitVal_def TimeClip_def maxTime_def MakeDate_def
  MakeDay_def MakeTime_def msPerDay_def DayFromYear_def InLeapYear_def DaysInMonth_def
  monthStart_def

lemmas format_eval =
  kickoffText_def isoSeconds_def yearString_def pad2_def digitChar_def padNat_numeral

text \<open>1 May 2024, 12:00:00.123 UTC.\<close>

lemma may_2024_parse: "isoParse ''2024-05-01T12:00:00.123Z'' = Some 1714564800123"
  by (simp add: parse_eval)

lemma may_2024_fields:
  "fieldsOf 1714564800123 = \<lparr> fYear = 2024, fMonth = 4, fDate = 1, fHours = 12, fMinutes = 0,
                               fSeconds = 0, fMillis = 123 \<rparr>"
  by code_simp

lemma may_2024_text: "kickoffText 1714564800123 = ''2024-05-01T12:00:00Z''"
  by (simp add: may_2024_fields format_eval)




lemma normalizeChallenge_may_2024:
  "(normalizeChallenge rt (JObj [(''kickoffTime'', JStr ''2024-05-01T12:00:00.123Z''),
                                 (''home'', JStr ''A''), (''away'', JStr ''B'')]) :: 'e thrown + jsval)
   = Inr (JObj [(''kickoffTime'', JStr ''2024-05-01T12:00:00Z''),
                (''home'', JStr ''A''), (''away'', JStr ''B'')])"
proof -
  let ?ch = "JObj [(''kickoffTime'', JStr ''2024-05-01T12:00:00.123Z''),
                   (''home'', JStr ''A''), (''away'', JStr ''B'')]"
  have g: "(getMember ?ch ''kickoffTime'' :: 'e thrown + jsval) = Inr (JStr ''2024-05-01T12:00:00.123Z'')"
    by simp
  have d: "(newDate rt (JStr ''2024-05-01T12:00:00.123Z'') :: 'e thrown + int option)
             = Inr (Some 1714564800123)"
    by (simp add: Date_parse_def may_2024_parse)
  show ?thesis
    unfolding normalizeChallenge_valid_date [OF g d] may_2024_text
    by (simp add: setMember_def)
qed


lemma valid_may_2024:
  "validChallenge rt (JObj [(''kickoffTime'', JStr ''2024-05-01T12:00:00.123Z''),
                            (''home'', JStr ''A''), (''away'', JStr ''B'')])"
  by (rule normalizes_validChallenge [OF normalizeChallenge_may_2024 [where ?'e = unit]])


lemma parse_example:
  "JSON_parse rt ''[{\"kickoffTime\":\"2024-05-01T12:00:00.123Z\",\"home\":\"A\",\"away\":\"B\"}]''
     = Some (JArr [JObj [(''kickoffTime'', JStr ''2024-05-01T12:00:00.123Z''),
                         (''home'', JStr ''A''), (''away'', JStr ''B'')]])"
  by code_simp

lemma parse_normalized_example:
  "JSON_parse rt ''[{\"kickoffTime\":\"2024-05-01T12:00:00Z\",\"home\":\"A\",\"away\":\"B\"}]''
     = Some (JArr [JObj [(''kickoffTime'', JStr ''2024-05-01T12:00:00Z''),
                         (''home'', JStr ''A''), (''away'', JStr ''B'')]])"
  by code_simp

lemma stringify_normalized_example:
  "JSON_stringify rt (JArr [JObj [(''kickoffTime'', JStr ''2024-05-01T12:00:00Z''),
                                  (''home'', JStr ''A''), (''away'', JStr ''B'')]])
     = Some ''[{\"kickoffTime\":\"2024-05-01T12:00:00Z\",\"home\":\"A\",\"away\":\"B\"}]''"
  by code_simp

lemma challengesToPredict_example:
  "(challengesToPredict rt ''[{\"kickoffTime\":\"2024-05-01T12:00:00.123Z\",\"home\":\"A\",\"away\":\"B\"}]''
      :: 'e thrown + string option)
   = Inr (Some ''[{\"kickoffTime\":\"2024-05-01T12:00:00Z\",\"home\":\"A\",\"away\":\"B\"}]'')"
  by (simp add: challengesToPredict_def parse_example normalizeChallenges_def
        normalizeChallenge_may_2024 stringify_normalized_example)

text \<open>Surrogates in string literals: one without a partner is read and written back as
  its escape; two escapes that make a pair are read as the character they stand for.\<close>

lemma parse_unpaired_surrogate:
  "JSON_parse rt ([CHR ''['', CHR ''\"'', CHR 0x5C] @ ''ud83d\"]'')
     = Some (JArr [JStr [CHR 0xED, CHR 0xA0, CHR 0xBD]])"
  by code_simp

lemma stringify_unpaired_surrogate:
  "JSON_stringify rt (JArr [JStr [CHR 0xED, CHR 0xA0, CHR 0xBD]])
     = Some ([CHR ''['', CHR ''\"'', CHR 0x5C] @ ''ud83d\"]'')"
  by code_simp

lemma parse_surrogate_pair:
  "JSON_parse rt ([CHR ''['', CHR ''\"'', CHR 0x5C] @ ''ud83d'' @ [CHR 0x5C] @ ''ude00\"]'')
     = Some (JArr [JStr [CHR 0xF0, CHR 0x9F, CHR 0x98, CHR 0x80]])"
  by code_simp

text \<open>An object with an own \<open>toString\<close> member has no conversion to a primitive value,
  alone or inside an array.\<close>

lemma newDate_own_toString:
  "(newDate rt (JObj [(''toString'', v)]) :: 'e thrown + int option) = Inl TypeError"
  by simp

lemma newDate_own_toString_in_array:
  "(newDate rt (JArr [JNull, JObj [(''toString'', v)]]) :: 'e thrown + int option) = Inl TypeError"
  by simp

section \<open>The shape of the written kickoffTime\<close>






section \<open>Properties of create\<close>

lemma typeof_object_iff:
  "typeof v = ''object'' \<longleftrightarrow> v = JNull \<or> (\<exists>xs. v = JArr xs) \<or> (\<exists>kvs. v = JObj kvs)"
  by (cases v) simp_all

lemma getMember_not_Error: "getMember v k \<noteq> Inl (Error m)"
  by (cases v) simp_all

lemma numberOfPredictionsEntry_not_Error: "numberOfPredictionsEntry d \<noteq> Inl (Error m)"
  using getMember_not_Error [of d "''params''" m]
  by (auto simp: numberOfPredictionsEntry_def getMember_not_Error split: sum.splits)

lemma entryValue_not_Error: "entryValue x \<noteq> Inl (Error m)"
  by (simp add: entryValue_def getMember_not_Error)

text \<open>
  Where the member reads go through, create returns the initial details: the value found
  when it is truthy, and 0 otherwise (no entry, no \<open>value\<close>, or a falsy one).
\<close>

lemma create_returns:
  assumes "typeof (details offer) = ''object''"
    and "numberOfPredictionsEntry (details offer) = (Inr entry :: 'e thrown + jsval)"
    and "entryValue entry = (Inr v :: 'e thrown + jsval)"
  shows "(create agreement offer :: 'e thrown + ScorePredictionResourceDetails) =
           Inr \<lparr> status = Running,
                 Predictions_Allowance_Count = (if truthy v then v else JNum (Fin 0)),
                 Predictions_Count = JNum (Fin 0) \<rparr>"
  using assms by (simp add: create_def)

lemma create_fifty:
  "create agreement \<lparr> offerIdent = i, details =
       JObj [(''params'', JObj [(''Number of Predictions'',
               JObj [(''value'', JNum (Fin 50)), (''unit'', JStr ''count'')])])] \<rparr>
   = Inr \<lparr> status = Running, Predictions_Allowance_Count = JNum (Fin 50),
           Predictions_Count = JNum (Fin 0) \<rparr>"
  by (simp add: create_def numberOfPredictionsEntry_def entryValue_def)

text \<open>
  C6. The allowance is to default to 0 when it is absent. For details that are an object
  with no \<open>params\<close> member, the read \<open>params["Number of Predictions"]\<close> indexes
  \<open>undefined\<close>: create throws a TypeError and returns no resource details.
\<close>

theorem create_empty_details_faults:
  "typeof (details \<lparr> offerIdent = 1, details = JObj [] \<rparr>) = ''object'' \<and>
   (create \<lparr> agreementId = 1, offerId = 1 \<rparr> \<lparr> offerIdent = 1, details = JObj [] \<rparr>
      :: unit thrown + ScorePredictionResourceDetails) = Inl TypeError"
  by (simp add: create_def numberOfPredictionsEntry_def)

text \<open>
  C7. create fails with the error "Invalid offer details" exactly for the offers whose
  details are not structured data (\<open>typeof\<close> is not \<open>object\<close>).
\<close>

theorem create_invalid_offer_details_iff:
  "(create agreement offer :: 'e thrown + ScorePredictionResourceDetails)
      = Inl (Error ''Invalid offer details'')
   \<longleftrightarrow> typeof (details offer) \<noteq> ''object''"
proof (cases "typeof (details offer) = ''object''")
  case False
  then show ?thesis by (simp add: create_def)
next
  case True
  have "(create agreement offer :: 'e thrown + ScorePredictionResourceDetails)
          \<noteq> Inl (Error ''Invalid offer details'')"
    using True numberOfPredictionsEntry_not_Error [of "details offer" "''Invalid offer details''"]
      entryValue_not_Error [of _ "''Invalid offer details''"]
    by (auto simp: create_def Let_def split: sum.splits)
  with True show ?thesis by simp
qed

text \<open>
  C10. create is not total on details that pass the \<open>typeof\<close> check: every object that
  has no \<open>params\<close> member makes it throw a TypeError, which is neither the success return
  nor the "Invalid offer details" error; for \<open>null\<close> the optional chain short-circuits
  and create succeeds with allowance 0.
\<close>

theorem create_not_total_on_objects:
  "(map_of kvs ''params'' = None \<longrightarrow>
      typeof (JObj kvs) = ''object'' \<and>
      (create agreement \<lparr> offerIdent = i, details = JObj kvs \<rparr>
         :: 'e thrown + ScorePredictionResourceDetails) = Inl TypeError) \<and>
   typeof JNull = ''object'' \<and>
   (create agreement \<lparr> offerIdent = i, details = JNull \<rparr>
      :: 'e thrown + ScorePredictionResourceDetails)
     = Inr \<lparr> status = Running, Predictions_Allowance_Count = JNum (Fin 0),
             Predictions_Count = JNum (Fin 0) \<rparr>"
  by (simp add: create_def numberOfPredictionsEntry_def entryValue_def)

theorem create_not_total_on_objects_witness:
  "map_of ([] :: (string \<times> jsval) list) ''params'' = None \<and>
   (create \<lparr> agreementId = 7, offerId = 3 \<rparr> \<lparr> offerIdent = 3, details = JObj [] \<rparr>
      :: unit thrown + ScorePredictionResourceDetails) = Inl TypeError \<and>
   (create \<lparr> agreementId = 7, offerId = 3 \<rparr> \<lparr> offerIdent = 3, details = JNull \<rparr>
      :: unit thrown + ScorePredictionResourceDetails)
     = Inr \<lparr> status = Running, Predictions_Allowance_Count = JNum (Fin 0),
             Predictions_Count = JNum (Fin 0) \<rparr>"
  using create_not_total_on_objects
    [of "[]" "\<lparr> agreementId = 7, offerId = 3 \<rparr>" 3, where ?'e = unit]
  by simp

section \<open>Properties of the outbound request executor\<close>

lemma makePredictionRequest_requests:
  "requests (snd (makePredictionRequest rt sv url key challenges w))
     = requests w @ [predictionRequest url key challenges]"
  by (simp add: makePredictionRequest_def writeLog_def Let_def split: sum.splits)

lemma predictFixtureResults_request_fails:
  fixes sv :: "'e services"
  assumes "getVirtualProviderConfiguration sv (offerId agreement) (protocolAddress sv) = Some cfg"
    and "(challengesToPredict rt challenges :: 'e thrown + string option) = Inr body"
    and "makePredictionRequest rt sv (apiBaseURL cfg) (apiKey cfg) body w = (Inl e, w')"
  shows "predictFixtureResults rt sv agreement resource challenges w = (Inl e, w')"
  using assms by (simp add: predictFixtureResults_def)

text \<open>
  C3. When the endpoint answers with a status that is not a success, the executor fails
  with the same internal-error value whatever the status and the body are: the error
  payload is the constant \<open>{predictions: "", message: "Prediction is failed"}\<close>. The status
  and the body go to the log, at error level, and a body that cannot be read is logged as
  the placeholder \<open>[body not available]\<close>.
\<close>

theorem non_success_status_not_exposed:
  assumes "fetch sv (predictionRequest url key challenges) = Inr response"
    and "\<not> responseOk response"
  shows "makePredictionRequest rt sv url key challenges w =
           (Inl (PipeError INTERNAL_SERVER_ERROR
                   [(''predictions'', ''''), (''message'', ''Prediction is failed'')]),
            w \<lparr> requests := requests w @ [predictionRequest url key challenges],
                logged := logged w @
                  [(LevelError, ''API call to '' @ url @ '' failed with status ''
                      @ showNat (respStatus response) @ '': ''
                      @ (case respBody response of
                           Inl e \<Rightarrow> ''[body not available]''
                         | Inr b \<Rightarrow> b))] \<rparr>)"
  using assms by (simp add: makePredictionRequest_def writeLog_def textOr_def Let_def)

theorem non_success_status_not_exposed_witness:
  "fetch (exampleServices (Some exampleConfiguration)
            (\<lambda>req. Inr \<lparr> respStatus = 500, respBody = Inr ''upstream exploded'' \<rparr>))
       (predictionRequest ''https://api.score-prediction.net'' ''k'' (Some ''[]''))
     = Inr \<lparr> respStatus = 500, respBody = Inr ''upstream exploded'' \<rparr>
   \<and> \<not> responseOk \<lparr> respStatus = 500, respBody = (Inr ''upstream exploded'' :: unit + string) \<rparr>
   \<and> makePredictionRequest exampleRuntime
         (exampleServices (Some exampleConfiguration)
            (\<lambda>req. Inr \<lparr> respStatus = 500, respBody = Inr ''upstream exploded'' \<rparr>))
         ''https://api.score-prediction.net'' ''k'' (Some ''[]'') emptyWorld
       = (Inl (PipeError INTERNAL_SERVER_ERROR
                 [(''predictions'', ''''), (''message'', ''Prediction is failed'')]),
          \<lparr> requests = [predictionRequest ''https://api.score-prediction.net'' ''k'' (Some ''[]'')],
            logged = [(LevelError,
              ''API call to https://api.score-prediction.net failed with status 500: upstream exploded'')] \<rparr>)"
proof -
  let ?r = "\<lparr> respStatus = 500, respBody = (Inr ''upstream exploded'' :: unit + string) \<rparr>"
  let ?sv = "exampleServices (Some exampleConfiguration) (\<lambda>req. Inr ?r)"
  have f: "fetch ?sv (predictionRequest ''https://api.score-prediction.net'' ''k'' (Some ''[]'')) = Inr ?r"
    by (simp add: exampleServices_def)
  have n: "\<not> responseOk ?r" by (simp add: responseOk_def)
  show ?thesis
    using non_success_status_not_exposed [OF f n, of exampleRuntime emptyWorld] f n
    by (simp add: emptyWorld_def digitChar_def)
qed

text \<open>
  C9. When the outbound call fails at the transport level (the fetch is rejected: a network
  error, or the abort of the timeout), the executor logs the cause at debug level and
  throws the very error it caught; it has issued exactly one request.
\<close>

theorem transport_failure_rethrown:
  assumes "fetch sv (predictionRequest url key challenges) = Inl err"
  shows "makePredictionRequest rt sv url key challenges w =
           (Inl (Raised err),
            w \<lparr> requests := requests w @ [predictionRequest url key challenges],
                logged := logged w @ [(LevelDebug, ''Fetch error cause: '' @ causeText sv err)] \<rparr>)
         \<and> length (requests (snd (makePredictionRequest rt sv url key challenges w)))
             = Suc (length (requests w))"
  using assms by (simp add: makePredictionRequest_def writeLog_def Let_def)

theorem transport_failure_rethrown_witness:
  "fetch (exampleServices (Some exampleConfiguration) (\<lambda>req. Inl ()))
       (predictionRequest ''https://api.score-prediction.net'' ''k'' (Some ''[]'')) = Inl ()
   \<and> makePredictionRequest exampleRuntime
         (exampleServices (Some exampleConfiguration) (\<lambda>req. Inl ()))
         ''https://api.score-prediction.net'' ''k'' (Some ''[]'') emptyWorld
       = (Inl (Raised ()),
          \<lparr> requests = [predictionRequest ''https://api.score-prediction.net'' ''k'' (Some ''[]'')],
            logged = [(LevelDebug, ''Fetch error cause: Error: connect ECONNREFUSED'')] \<rparr>)"
proof -
  let ?sv = "exampleServices (Some exampleConfiguration) (\<lambda>req. Inl ())"
  have f: "fetch ?sv (predictionRequest ''https://api.score-prediction.net'' ''k'' (Some ''[]'')) = Inl ()"
    by (simp add: exampleServices_def)
  show ?thesis
    using transport_failure_rethrown [OF f, of exampleRuntime emptyWorld] f
    by (simp add: emptyWorld_def exampleServices_def)
qed

section \<open>Properties of predictFixtureResults\<close>

text \<open>
  C2. When the resolver has no configuration for the agreement's offer,
  predictFixtureResults fails with the internal-error PipeError whose message is
  "Configuration of the Offer is not found". The world is returned as it was: no request
  has been issued and nothing logged, and the challenges have not been looked at (the
  result is the same for every challenges string).
\<close>

theorem configuration_missing:
  assumes "getVirtualProviderConfiguration sv (offerId agreement) (protocolAddress sv) = None"
  shows "predictFixtureResults rt sv agreement resource challenges w =
           (Inl (PipeError INTERNAL_SERVER_ERROR
                   [(''message'', ''Configuration of the Offer is not found'')]), w)"
  using assms by (simp add: predictFixtureResults_def)

theorem configuration_missing_witness:
  "getVirtualProviderConfiguration (exampleServices None echoEndpoint)
       (offerId \<lparr> agreementId = 1, offerId = 7 \<rparr>)
       (protocolAddress (exampleServices None echoEndpoint)) = None
   \<and> predictFixtureResults exampleRuntime (exampleServices None echoEndpoint)
         \<lparr> agreementId = 1, offerId = 7 \<rparr>
         exampleResource ''not json'' emptyWorld
       = (Inl (PipeError INTERNAL_SERVER_ERROR
                 [(''message'', ''Configuration of the Offer is not found'')]), emptyWorld)"
proof -
  have c: "getVirtualProviderConfiguration (exampleServices None echoEndpoint)
             (offerId \<lparr> agreementId = 1, offerId = 7 \<rparr>)
             (protocolAddress (exampleServices None echoEndpoint)) = None"
    by (simp add: exampleServices_def)
  show ?thesis
    using configuration_missing [OF c, of exampleRuntime
        exampleResource "''not json''" emptyWorld] c
    by simp
qed

text \<open>When the normalisation accepts the challenges and the endpoint answers the request
  with a success status and a JSON body, the result is OK with the body parsed and
  serialised again.\<close>

lemma predictFixtureResults_answered:
  fixes sv :: "'e services"
  assumes "getVirtualProviderConfiguration sv (offerId agreement) (protocolAddress sv) = Some cfg"
    and "(challengesToPredict rt challenges :: 'e thrown + string option) = Inr body"
    and "fetch sv (predictionRequest (apiBaseURL cfg) (apiKey cfg) body) = Inr response"
    and "responseOk response"
    and "respBody response = Inr txt"
    and "JSON_parse rt txt = Some v"
  shows "predictFixtureResults rt sv agreement resource challenges w =
           (Inr \<lparr> predictions = JSON_stringify rt v, responseCode = OK \<rparr>,
            w \<lparr> requests := requests w @ [predictionRequest (apiBaseURL cfg) (apiKey cfg) body],
                logged := logged w @
                  [(LevelDebug, ''Response got from '' @ apiBaseURL cfg @ '': '' @ txt)] \<rparr>)"
  using assms
  by (simp add: predictFixtureResults_def makePredictionRequest_def responseJson_def writeLog_def
        textOr_def Let_def)

lemma predictFixtureResults_request_issued:
  fixes sv :: "'e services"
  assumes "getVirtualProviderConfiguration sv (offerId agreement) (protocolAddress sv) = Some cfg"
    and "requests (snd (predictFixtureResults rt sv agreement resource challenges w))
           = requests w @ [req]"
  shows "\<exists>body. (challengesToPredict rt challenges :: 'e thrown + string option) = Inr body
           \<and> req = predictionRequest (apiBaseURL cfg) (apiKey cfg) body"
proof (cases "challengesToPredict rt challenges :: 'e thrown + string option")
  case (Inl e)
  with assms show ?thesis by (simp add: predictFixtureResults_def)
next
  case (Inr body)
  have "requests (snd (predictFixtureResults rt sv agreement resource challenges w))
          = requests w @ [predictionRequest (apiBaseURL cfg) (apiKey cfg) body]"
    using assms(1) Inr
      makePredictionRequest_requests [of rt sv "apiBaseURL cfg" "apiKey cfg" body w]
    by (auto simp: predictFixtureResults_def split: prod.splits sum.splits)
  with assms(2) Inr show ?thesis by simp
qed

text \<open>
  C1. Take any challenges and a resource whose resolver returns a configuration. When the
  provider has sent its request and the endpoint answers it with a success status and a
  body that is a JSON array, predictFixtureResults returns the response code OK and, as
  predictions, the parsed body serialised again. The request that was sent carries the
  normalised challenges as its body. In the example that follows the challenge is
  \<open>[{kickoffTime: "2024-05-01T12:00:00.123Z", home: "A", away: "B"}]\<close> and the endpoint
  echoes the request: the body sent has \<open>kickoffTime\<close> \<open>2024-05-01T12:00:00Z\<close>, and the
  predictions are that body.
\<close>

theorem predictFixtureResults_success:
  fixes sv :: "'e services"
  assumes "getVirtualProviderConfiguration sv (offerId agreement) (protocolAddress sv) = Some cfg"
    and "requests (snd (predictFixtureResults rt sv agreement resource challenges w))
           = requests w @ [req]"
    and "fetch sv req = Inr response"
    and "responseOk response"
    and "respBody response = Inr txt"
    and "JSON_parse rt txt = Some (JArr ps)"
  shows "fst (predictFixtureResults rt sv agreement resource challenges w)
           = Inr \<lparr> predictions = JSON_stringify rt (JArr ps), responseCode = OK \<rparr>
         \<and> (\<exists>body. (challengesToPredict rt challenges :: 'e thrown + string option) = Inr body
                \<and> req = predictionRequest (apiBaseURL cfg) (apiKey cfg) body)"
proof -
  from predictFixtureResults_request_issued [OF assms(1,2)] obtain body where
    body: "(challengesToPredict rt challenges :: 'e thrown + string option) = Inr body"
    and req: "req = predictionRequest (apiBaseURL cfg) (apiKey cfg) body"
    by blast
  from predictFixtureResults_answered
    [OF assms(1) body assms(3) [unfolded req] assms(4,5,6), of resource w]
  have "fst (predictFixtureResults rt sv agreement resource challenges w)
          = Inr \<lparr> predictions = JSON_stringify rt (JArr ps), responseCode = OK \<rparr>"
    by simp
  with body req show ?thesis by blast
qed

lemma predictFixtureResults_echo:
  "predictFixtureResults rt (exampleServices (Some exampleConfiguration) echoEndpoint)
     \<lparr> agreementId = 1, offerId = 7 \<rparr> exampleResource
     ''[{\"kickoffTime\":\"2024-05-01T12:00:00.123Z\",\"home\":\"A\",\"away\":\"B\"}]'' emptyWorld
   = (Inr \<lparr> predictions =
              Some ''[{\"kickoffTime\":\"2024-05-01T12:00:00Z\",\"home\":\"A\",\"away\":\"B\"}]'',
            responseCode = OK \<rparr>,
      \<lparr> requests = [predictionRequest ''https://api.score-prediction.net''
                       ''4vXK8xf3wTYJzVk18ADtoRkhblC79gvgZ0XhEFPc''
                       (Some ''[{\"kickoffTime\":\"2024-05-01T12:00:00Z\",\"home\":\"A\",\"away\":\"B\"}]'')],
        logged = [(LevelDebug, ''Response got from https://api.score-prediction.net: ''
                     @ ''[{\"kickoffTime\":\"2024-05-01T12:00:00Z\",\"home\":\"A\",\"away\":\"B\"}]'')] \<rparr>)"
proof -
  let ?sv = "exampleServices (Some exampleConfiguration) echoEndpoint"
  let ?out = "''[{\"kickoffTime\":\"2024-05-01T12:00:00Z\",\"home\":\"A\",\"away\":\"B\"}]''"
  let ?r = "\<lparr> respStatus = 200, respBody = (Inr ?out :: unit + string) \<rparr>"
  have c: "getVirtualProviderConfiguration ?sv (offerId \<lparr> agreementId = 1, offerId = 7 \<rparr>)
             (protocolAddress ?sv) = Some exampleConfiguration"
    by (simp add: exampleServices_def)
  have f: "fetch ?sv (predictionRequest (apiBaseURL exampleConfiguration)
             (apiKey exampleConfiguration) (Some ?out)) = Inr ?r"
    by (simp add: exampleServices_def echoEndpoint_def predictionRequest_def)
  have ok: "responseOk ?r" by (simp add: responseOk_def)
  have b: "respBody ?r = Inr ?out" by simp
  show ?thesis
    using predictFixtureResults_answered
      [OF c challengesToPredict_example f ok b parse_normalized_example, where w = emptyWorld]
    by (simp add: stringify_normalized_example emptyWorld_def exampleConfiguration_def)
qed

theorem predictFixtureResults_success_witness:
  "\<forall>rt.
     requests (snd (predictFixtureResults rt (exampleServices (Some exampleConfiguration) echoEndpoint)
         \<lparr> agreementId = 1, offerId = 7 \<rparr> exampleResource
         ''[{\"kickoffTime\":\"2024-05-01T12:00:00.123Z\",\"home\":\"A\",\"away\":\"B\"}]'' emptyWorld))
       = requests emptyWorld @
         [predictionRequest ''https://api.score-prediction.net''
            ''4vXK8xf3wTYJzVk18ADtoRkhblC79gvgZ0XhEFPc''
            (Some ''[{\"kickoffTime\":\"2024-05-01T12:00:00Z\",\"home\":\"A\",\"away\":\"B\"}]'')]
     \<and> fetch (exampleServices (Some exampleConfiguration) echoEndpoint)
         (predictionRequest ''https://api.score-prediction.net''
            ''4vXK8xf3wTYJzVk18ADtoRkhblC79gvgZ0XhEFPc''
            (Some ''[{\"kickoffTime\":\"2024-05-01T12:00:00Z\",\"home\":\"A\",\"away\":\"B\"}]''))
       = Inr \<lparr> respStatus = 200,
               respBody = Inr ''[{\"kickoffTime\":\"2024-05-01T12:00:00Z\",\"home\":\"A\",\"away\":\"B\"}]'' \<rparr>
     \<and> fst (predictFixtureResults rt (exampleServices (Some exampleConfiguration) echoEndpoint)
         \<lparr> agreementId = 1, offerId = 7 \<rparr> exampleResource
         ''[{\"kickoffTime\":\"2024-05-01T12:00:00.123Z\",\"home\":\"A\",\"away\":\"B\"}]'' emptyWorld)
       = Inr \<lparr> predictions =
                 Some ''[{\"kickoffTime\":\"2024-05-01T12:00:00Z\",\"home\":\"A\",\"away\":\"B\"}]'',
               responseCode = OK \<rparr>"
proof
  fix rt
  let ?sv = "exampleServices (Some exampleConfiguration) echoEndpoint"
  let ?in = "''[{\"kickoffTime\":\"2024-05-01T12:00:00.123Z\",\"home\":\"A\",\"away\":\"B\"}]''"
  let ?out = "''[{\"kickoffTime\":\"2024-05-01T12:00:00Z\",\"home\":\"A\",\"away\":\"B\"}]''"
  let ?req = "predictionRequest ''https://api.score-prediction.net''
                ''4vXK8xf3wTYJzVk18ADtoRkhblC79gvgZ0XhEFPc'' (Some ?out)"
  let ?r = "\<lparr> respStatus = 200, respBody = (Inr ?out :: unit + string) \<rparr>"
  let ?run = "predictFixtureResults rt ?sv \<lparr> agreementId = 1, offerId = 7 \<rparr>
                exampleResource ?in emptyWorld"
  have c: "getVirtualProviderConfiguration ?sv (offerId \<lparr> agreementId = 1, offerId = 7 \<rparr>)
             (protocolAddress ?sv) = Some exampleConfiguration"
    by (simp add: exampleServices_def)
  have sent: "requests (snd ?run) = requests emptyWorld @ [?req]"
    unfolding predictFixtureResults_echo by (simp add: emptyWorld_def)
  have f: "fetch ?sv ?req = Inr ?r"
    by (simp add: exampleServices_def echoEndpoint_def predictionRequest_def)
  have ok: "responseOk ?r" by (simp add: responseOk_def)
  have b: "respBody ?r = Inr ?out" by simp
  have "fst ?run = Inr \<lparr> predictions = JSON_stringify rt
            (JArr [JObj [(''kickoffTime'', JStr ''2024-05-01T12:00:00Z''),
                         (''home'', JStr ''A''), (''away'', JStr ''B'')]]),
          responseCode = OK \<rparr>"
    using predictFixtureResults_success [OF c sent f ok b parse_normalized_example] by blast
  then show "requests (snd ?run) = requests emptyWorld @ [?req] \<and> fetch ?sv ?req = Inr ?r
      \<and> fst ?run = Inr \<lparr> predictions = Some ?out, responseCode = OK \<rparr>"
    using sent f by (simp only: stringify_normalized_example simp_thms)
qed

section \<open>Properties of the payload normalisation\<close>

text \<open>
  C4. For a valid challenge array (every element has a kickoffTime that \<open>new Date\<close>
  accepts), the rewriting succeeds, and applying it to its own result and serialising
  gives the same text as applying it once and serialising.
\<close>

theorem normalization_idempotent:
  assumes "list_all (validChallenge rt) xs"
  shows "\<exists>txt. (normalizedText rt (JArr xs) :: 'e thrown + string option) = Inr (Some txt)
               \<and> (normalizedTwiceText rt (JArr xs) :: 'e thrown + string option) = Inr (Some txt)"
proof -
  from normalizeChallenges_valid [OF assms] obtain ys where
    ys: "(normalizeChallenges rt (JArr xs) :: 'e thrown + jsval) = Inr (JArr ys)" by blast
  have again: "(normalizeChallenges rt (JArr ys) :: 'e thrown + jsval) = Inr (JArr ys)"
    by (rule normalizeChallenges_idempotent [OF ys])
  show ?thesis
    by (simp add: normalizedText_def normalizedTwiceText_def ys again JSON_stringify_def)
qed

theorem normalization_idempotent_witness:
  "list_all (validChallenge exampleRuntime)
     [JObj [(''kickoffTime'', JStr ''2024-05-01T12:00:00.123Z''), (''home'', JStr ''A''),
            (''away'', JStr ''B'')]]
   \<and> (normalizedText exampleRuntime
         (JArr [JObj [(''kickoffTime'', JStr ''2024-05-01T12:00:00.123Z''), (''home'', JStr ''A''),
                      (''away'', JStr ''B'')]]) :: unit thrown + string option)
       = Inr (Some ''[{\"kickoffTime\":\"2024-05-01T12:00:00Z\",\"home\":\"A\",\"away\":\"B\"}]'')
   \<and> (normalizedTwiceText exampleRuntime
         (JArr [JObj [(''kickoffTime'', JStr ''2024-05-01T12:00:00.123Z''), (''home'', JStr ''A''),
                      (''away'', JStr ''B'')]]) :: unit thrown + string option)
       = Inr (Some ''[{\"kickoffTime\":\"2024-05-01T12:00:00Z\",\"home\":\"A\",\"away\":\"B\"}]'')"
proof -
  let ?xs = "[JObj [(''kickoffTime'', JStr ''2024-05-01T12:00:00.123Z''), (''home'', JStr ''A''),
                    (''away'', JStr ''B'')]]"
  have v: "list_all (validChallenge exampleRuntime) ?xs" by (simp add: valid_may_2024)
  have once: "(normalizedText exampleRuntime (JArr ?xs) :: unit thrown + string option)
                = Inr (Some ''[{\"kickoffTime\":\"2024-05-01T12:00:00Z\",\"home\":\"A\",\"away\":\"B\"}]'')"
    by (simp add: normalizedText_def normalizeChallenges_def normalizeChallenge_may_2024
          stringify_normalized_example)
  from normalization_idempotent [OF v, where ?'e = unit] once v show ?thesis by auto
qed




text \<open>
  C8, as the code has it. The normalisation step throws the runtime's own errors: a
  SyntaxError when the challenges are not JSON; a TypeError when the parsed value is not
  an array; for an array, the error of its first element that is not a valid challenge,
  which is a TypeError when that element is \<open>null\<close> or its \<open>kickoffTime\<close> is an array or
  object with no conversion to a primitive value, and a RangeError otherwise. It never
  throws a PipeError, and it succeeds exactly on the arrays whose elements are all valid
  challenges.
\<close>

theorem challenges_failures_are_runtime_errors:
  "(JSON_parse rt challenges = None \<longrightarrow>
      (challengesToPredict rt challenges :: 'e thrown + string option) = Inl SyntaxError)
   \<and> (\<forall>v. JSON_parse rt challenges = Some v \<longrightarrow> (\<forall>xs. v \<noteq> JArr xs) \<longrightarrow>
          (challengesToPredict rt challenges :: 'e thrown + string option) = Inl TypeError)
   \<and> (\<forall>xs. JSON_parse rt challenges = Some (JArr xs) \<longrightarrow> \<not> list_all (validChallenge rt) xs \<longrightarrow>
          (\<exists>pre x post. xs = pre @ x # post \<and> list_all (validChallenge rt) pre
             \<and> \<not> validChallenge rt x
             \<and> (challengesToPredict rt challenges :: 'e thrown + string option)
                 = Inl (if nullish x \<or> unconvertible rt x then TypeError else RangeError)))
   \<and> (\<forall>xs. JSON_parse rt challenges = Some (JArr xs) \<longrightarrow> list_all (validChallenge rt) xs \<longrightarrow>
          (\<exists>body. (challengesToPredict rt challenges :: 'e thrown + string option) = Inr (Some body)))
   \<and> (\<forall>e. (challengesToPredict rt challenges :: 'e thrown + string option) = Inl e \<longrightarrow>
          \<not> isPipeError e)"
proof -
  have bad_json: "(challengesToPredict rt challenges :: 'e thrown + string option) = Inl SyntaxError"
    if "JSON_parse rt challenges = None"
    using that by (simp add: challengesToPredict_def)
  have not_array: "(challengesToPredict rt challenges :: 'e thrown + string option) = Inl TypeError"
    if "JSON_parse rt challenges = Some v" and "\<forall>xs. v \<noteq> JArr xs" for v
    using that by (cases v) (simp_all add: challengesToPredict_def normalizeChallenges_def)
  have invalid: "\<exists>pre x post. xs = pre @ x # post \<and> list_all (validChallenge rt) pre
             \<and> \<not> validChallenge rt x
             \<and> (challengesToPredict rt challenges :: 'e thrown + string option)
                 = Inl (if nullish x \<or> unconvertible rt x then TypeError else RangeError)"
    if p: "JSON_parse rt challenges = Some (JArr xs)" and n: "\<not> list_all (validChallenge rt) xs" for xs
  proof (cases "mapThrowing (normalizeChallenge rt :: jsval \<Rightarrow> 'e thrown + jsval) xs")
    case (Inl e)
    from mapThrowing_first_error [OF Inl] obtain pre x post where
      xs: "xs = pre @ x # post"
      and pre: "\<forall>p \<in> set pre. \<exists>y. (normalizeChallenge rt p :: 'e thrown + jsval) = Inr y"
      and x: "(normalizeChallenge rt x :: 'e thrown + jsval) = Inl e" by blast
    have "list_all (validChallenge rt) pre"
      using pre by (auto simp: list_all_iff intro: normalizes_validChallenge)
    moreover from normalizeChallenge_errors [OF x] have
      "\<not> validChallenge rt x"
      "e = (if nullish x \<or> unconvertible rt x then TypeError else RangeError)"
      by simp_all
    moreover have "(challengesToPredict rt challenges :: 'e thrown + string option) = Inl e"
      using p Inl by (simp add: challengesToPredict_def normalizeChallenges_def)
    ultimately show ?thesis using xs by blast
  next
    case (Inr ys)
    then have "list_all2 (\<lambda>x y. (normalizeChallenge rt x :: 'e thrown + jsval) = Inr y) xs ys"
      by (simp add: mapThrowing_Inr_iff)
    then have "list_all (validChallenge rt) xs"
      by (induction rule: list_all2_induct) (auto intro: normalizes_validChallenge)
    with n show ?thesis by simp
  qed
  have valid: "\<exists>body. (challengesToPredict rt challenges :: 'e thrown + string option) = Inr (Some body)"
    if p: "JSON_parse rt challenges = Some (JArr xs)" and v: "list_all (validChallenge rt) xs" for xs
  proof -
    from normalizeChallenges_valid [OF v] obtain ys where
      "(normalizeChallenges rt (JArr xs) :: 'e thrown + jsval) = Inr (JArr ys)" by blast
    then show ?thesis using p by (simp add: challengesToPredict_def JSON_stringify_def)
  qed
  have untyped: "\<not> isPipeError e"
    if e: "(challengesToPredict rt challenges :: 'e thrown + string option) = Inl e" for e
  proof (cases "JSON_parse rt challenges")
    case None
    with bad_json e show ?thesis by auto
  next
    case (Some v)
    show ?thesis
    proof (cases "\<exists>xs. v = JArr xs")
      case False
      with not_array [OF Some] e show ?thesis by auto
    next
      case True
      then obtain xs where xs: "v = JArr xs" by blast
      show ?thesis
      proof (cases "list_all (validChallenge rt) xs")
        case True
        with valid [of xs] Some xs e show ?thesis by auto
      next
        case False
        with invalid [of xs] Some xs e show ?thesis by (auto split: if_splits)
      qed
    qed
  qed
  show ?thesis using bad_json not_array invalid valid untyped by blast
qed

lemma parse_not_json: "JSON_parse rt ''not json'' = None"
  by code_simp

lemma parse_empty_object: "JSON_parse rt ''{}'' = Some (JObj [])"
  by code_simp

lemma parse_array_of_empty_object: "JSON_parse rt ''[{}]'' = Some (JArr [JObj []])"
  by code_simp

lemma parse_empty_object_then_null: "JSON_parse rt ''[{},null]'' = Some (JArr [JObj [], JNull])"
  by code_simp

lemma parse_own_toString:
  "JSON_parse exampleRuntime ''[{\"kickoffTime\":{\"toString\":1}}]''
     = Some (JArr [JObj [(''kickoffTime'', JObj [(''toString'', JNum (Fin 1))])]])"
  by code_simp

lemma empty_object_not_valid: "\<not> validChallenge rt (JObj [])"
  by (simp add: validChallenge_def)

lemma null_not_valid: "\<not> validChallenge rt JNull"
  by (simp add: validChallenge_def)

lemma own_toString_not_valid:
  "\<not> validChallenge rt (JObj [(''kickoffTime'', JObj [(''toString'', v)])])"
  by (simp add: validChallenge_def)

theorem challenges_failures_are_runtime_errors_witness:
  "JSON_parse exampleRuntime ''not json'' = None
   \<and> (challengesToPredict exampleRuntime ''not json'' :: unit thrown + string option)
       = Inl SyntaxError
   \<and> JSON_parse exampleRuntime ''{}'' = Some (JObj [])
   \<and> (challengesToPredict exampleRuntime ''{}'' :: unit thrown + string option) = Inl TypeError
   \<and> JSON_parse exampleRuntime ''[{}]'' = Some (JArr [JObj []])
   \<and> \<not> list_all (validChallenge exampleRuntime) [JObj []]
   \<and> (challengesToPredict exampleRuntime ''[{}]'' :: unit thrown + string option) = Inl RangeError
   \<and> JSON_parse exampleRuntime ''[{},null]'' = Some (JArr [JObj [], JNull])
   \<and> \<not> list_all (validChallenge exampleRuntime) [JObj [], JNull]
   \<and> (challengesToPredict exampleRuntime ''[{},null]'' :: unit thrown + string option)
       = Inl RangeError
   \<and> JSON_parse exampleRuntime ''[{\"kickoffTime\":{\"toString\":1}}]''
       = Some (JArr [JObj [(''kickoffTime'', JObj [(''toString'', JNum (Fin 1))])]])
   \<and> \<not> list_all (validChallenge exampleRuntime)
           [JObj [(''kickoffTime'', JObj [(''toString'', JNum (Fin 1))])]]
   \<and> (challengesToPredict exampleRuntime ''[{\"kickoffTime\":{\"toString\":1}}]''
        :: unit thrown + string option) = Inl TypeError
   \<and> list_all (validChallenge exampleRuntime)
         [JObj [(''kickoffTime'', JStr ''2024-05-01T12:00:00.123Z''), (''home'', JStr ''A''),
                (''away'', JStr ''B'')]]
   \<and> (\<exists>body. (challengesToPredict exampleRuntime
          ''[{\"kickoffTime\":\"2024-05-01T12:00:00.123Z\",\"home\":\"A\",\"away\":\"B\"}]''
          :: unit thrown + string option) = Inr (Some body))"
proof -
  note c1 = challenges_failures_are_runtime_errors
    [of exampleRuntime "''not json''", where ?'e = unit, THEN conjunct1, rule_format]
  note c2 = challenges_failures_are_runtime_errors
    [of exampleRuntime "''{}''", where ?'e = unit, THEN conjunct2, THEN conjunct1, rule_format]
  note c3 = challenges_failures_are_runtime_errors
    [of exampleRuntime "''[{}]''", where ?'e = unit, THEN conjunct2, THEN conjunct2,
     THEN conjunct1, rule_format]
  note c3' = challenges_failures_are_runtime_errors
    [of exampleRuntime "''[{},null]''", where ?'e = unit, THEN conjunct2, THEN conjunct2,
     THEN conjunct1, rule_format]
  note c3'' = challenges_failures_are_runtime_errors
    [of exampleRuntime "''[{\"kickoffTime\":{\"toString\":1}}]''", where ?'e = unit,
     THEN conjunct2, THEN conjunct2, THEN conjunct1, rule_format]
  note c4 = challenges_failures_are_runtime_errors
    [of exampleRuntime
       "''[{\"kickoffTime\":\"2024-05-01T12:00:00.123Z\",\"home\":\"A\",\"away\":\"B\"}]''",
     where ?'e = unit, THEN conjunct2, THEN conjunct2, THEN conjunct2, THEN conjunct1, rule_format]
  have n: "\<not> list_all (validChallenge exampleRuntime) [JObj []]"
    by (simp add: empty_object_not_valid)
  have n': "\<not> list_all (validChallenge exampleRuntime) [JObj [], JNull]"
    by (simp add: empty_object_not_valid)
  have n'': "\<not> list_all (validChallenge exampleRuntime)
                 [JObj [(''kickoffTime'', JObj [(''toString'', JNum (Fin 1))])]]"
    by (simp add: own_toString_not_valid)
  have v: "list_all (validChallenge exampleRuntime)
         [JObj [(''kickoffTime'', JStr ''2024-05-01T12:00:00.123Z''), (''home'', JStr ''A''),
                (''away'', JStr ''B'')]]"
    by (simp add: valid_may_2024)
  have r1: "(challengesToPredict exampleRuntime ''not json'' :: unit thrown + string option)
              = Inl SyntaxError"
    by (rule c1 [OF parse_not_json])
  have r2: "(challengesToPredict exampleRuntime ''{}'' :: unit thrown + string option) = Inl TypeError"
    by (rule c2 [OF parse_empty_object]) simp
  have r3: "(challengesToPredict exampleRuntime ''[{}]'' :: unit thrown + string option) = Inl RangeError"
    using c3 [OF parse_array_of_empty_object n]
    by (auto simp: Cons_eq_append_conv unconvertible_def)
  have r3': "(challengesToPredict exampleRuntime ''[{},null]'' :: unit thrown + string option)
               = Inl RangeError"
    using c3' [OF parse_empty_object_then_null n']
    by (auto simp: Cons_eq_append_conv unconvertible_def empty_object_not_valid)
  have r3'': "(challengesToPredict exampleRuntime ''[{\"kickoffTime\":{\"toString\":1}}]''
                 :: unit thrown + string option) = Inl TypeError"
    using c3'' [OF parse_own_toString n'']
    by (auto simp: Cons_eq_append_conv unconvertible_def)
  have r4: "\<exists>body. (challengesToPredict exampleRuntime
          ''[{\"kickoffTime\":\"2024-05-01T12:00:00.123Z\",\"home\":\"A\",\"away\":\"B\"}]''
          :: unit thrown + string option) = Inr (Some body)"
    by (rule c4 [OF parse_example v])
  show ?thesis
    by (simp only: parse_not_json parse_empty_object parse_array_of_empty_object
          parse_empty_object_then_null parse_own_toString r1 r2 r3 r3' r3'' r4 n n' n'' v simp_thms)
qed

theorem malformed_payload_counterexample:
  "JSON_parse exampleRuntime ''not json'' = None
   \<and> (challengesToPredict exampleRuntime ''not json'' :: unit thrown + string option)
       = Inl SyntaxError
   \<and> \<not> isPipeError (SyntaxError :: unit thrown)"
  by (simp add: challengesToPredict_def parse_not_json)

end
